theory Spec2Isabelle
  imports Main
begin

section \<open>JavaScript values used by the controllers\<close>

text \<open>
  Strings are lists of 8-bit characters. \<open>String.prototype.toLowerCase\<close> is modelled on
  the ASCII letters, which is all an address or a transaction hash contains.
\<close>

definition toLowerChar :: "char \<Rightarrow> char" where
  "toLowerChar c =
     (let n = (of_char c :: nat) in if 65 \<le> n \<and> n \<le> 90 then char_of (n + 32) else c)"

definition toLowerCase :: "string \<Rightarrow> string" where
  "toLowerCase s = map toLowerChar s"

text \<open>
  A request field is absent (\<open>undefined\<close>) or a string; \<open>!x\<close> holds for an absent
  field and for the empty string.
\<close>

definition truthy :: "string option \<Rightarrow> bool" where
  "truthy x = (case x of None \<Rightarrow> False | Some s \<Rightarrow> s \<noteq> [])"

text \<open>\<open>a || b\<close> on strings.\<close>

definition orElse :: "string \<Rightarrow> string \<Rightarrow> string" where
  "orElse a b = (if a = [] then b else a)"

subsection \<open>BigInt\<close>

text \<open>
  \<open>bigint.toString()\<close> of a non-negative value, as ethers returns a \<open>uint256\<close>: the
  decimal digits, most significant first.
\<close>

definition digitChar :: "nat \<Rightarrow> char" where
  "digitChar d = ''0123456789'' ! d"

fun toString :: "nat \<Rightarrow> string" where
  "toString n =
     (if n < 10 then [digitChar n] else toString (n div 10) @ [digitChar (n mod 10)])"

text \<open>
  \<open>BigInt(s)\<close> on a string follows StringToBigInt: white space is trimmed, the empty
  string is \<open>0n\<close>, then either a hexadecimal, octal or binary literal without sign, or
  decimal digits with an optional sign. Anything else is a SyntaxError (\<open>None\<close>).
\<close>

definition isStrWhiteSpace :: "char \<Rightarrow> bool" where
  "isStrWhiteSpace c = (c \<in> set [CHR 0x09, CHR 0x0A, CHR 0x0B, CHR 0x0C, CHR 0x0D, CHR 0x20, CHR 0xA0])"

definition trimString :: "string \<Rightarrow> string" where
  "trimString s = rev (dropWhile isStrWhiteSpace (rev (dropWhile isStrWhiteSpace s)))"

definition digitValue :: "char \<Rightarrow> nat option" where
  "digitValue c = map_of
     [(CHR ''0'', 0), (CHR ''1'', 1), (CHR ''2'', 2), (CHR ''3'', 3), (CHR ''4'', 4),
      (CHR ''5'', 5), (CHR ''6'', 6), (CHR ''7'', 7), (CHR ''8'', 8), (CHR ''9'', 9),
      (CHR ''a'', 10), (CHR ''b'', 11), (CHR ''c'', 12), (CHR ''d'', 13), (CHR ''e'', 14),
      (CHR ''f'', 15), (CHR ''A'', 10), (CHR ''B'', 11), (CHR ''C'', 12), (CHR ''D'', 13),
      (CHR ''E'', 14), (CHR ''F'', 15)] c"

fun digitsValue :: "nat \<Rightarrow> nat \<Rightarrow> string \<Rightarrow> nat option" where
  "digitsValue b acc [] = Some acc"
| "digitsValue b acc (c # cs) =
     (case digitValue c of
        None \<Rightarrow> None
      | Some d \<Rightarrow> if d < b then digitsValue b (acc * b + d) cs else None)"

definition parseDigits :: "nat \<Rightarrow> string \<Rightarrow> nat option" where
  "parseDigits b s = (if s = [] then None else digitsValue b 0 s)"

definition BigInt :: "string \<Rightarrow> int option" where
  "BigInt s =
     (let t = trimString s in
      if t = [] then Some 0
      else if take 2 t = ''0x'' \<or> take 2 t = ''0X'' then map_option int (parseDigits 16 (drop 2 t))
      else if take 2 t = ''0o'' \<or> take 2 t = ''0O'' then map_option int (parseDigits 8 (drop 2 t))
      else if take 2 t = ''0b'' \<or> take 2 t = ''0B'' then map_option int (parseDigits 2 (drop 2 t))
      else if hd t = CHR ''-'' then map_option (\<lambda>n. - int n) (parseDigits 10 (tl t))
      else if hd t = CHR ''+'' then map_option int (parseDigits 10 (tl t))
      else map_option int (parseDigits 10 t))"

text \<open>
  \<open>BigInt(a) < BigInt(b)\<close>: the comparison of the two integers, or the SyntaxError of
  the first conversion that fails.
\<close>

definition SyntaxError :: string where
  "SyntaxError = ''Cannot convert string to a BigInt''"

definition bigIntLess :: "string \<Rightarrow> string \<Rightarrow> string + bool" where
  "bigIntLess a b =
     (case BigInt a of
        None \<Rightarrow> Inl SyntaxError
      | Some x \<Rightarrow> (case BigInt b of None \<Rightarrow> Inl SyntaxError | Some y \<Rightarrow> Inr (x < y)))"

text \<open>\<open>BigInt(a) > 0n\<close>.\<close>

definition bigIntPositive :: "string \<Rightarrow> string + bool" where
  "bigIntPositive a = (case BigInt a of None \<Rightarrow> Inl SyntaxError | Some x \<Rightarrow> Inr (0 < x))"

section \<open>Data model\<close>

text \<open>
  The mongoose models, with the fields the approval and pull-back code reads or writes.
  Dates are milliseconds since the epoch.
\<close>

datatype nft_status = Uploaded | Minted | Redeemed | Pulled | Revoked

record NFT =
  nft_tokenId :: string
  nft_recipientAddress :: string
  nft_investorAddress :: string
  nft_status :: nft_status
  nft_mintTxHash :: "string option"
  nft_pullTxHash :: "string option"
  nft_originalFilename :: "string option"
  nft_createdAt :: int

record Approval =
  ap_walletAddress :: string
  ap_operatorAddress :: string
  ap_isApproved :: bool
  ap_txHash :: string
  ap_blockNumber :: nat
  ap_timestamp :: int
  ap_recordedAt :: int

record ERC20Approval =
  ea_walletAddress :: string
  ea_operatorAddress :: string
  ea_tokenContract :: string
  ea_tokenSymbol :: string
  ea_txHash :: string
  ea_blockNumber :: nat
  ea_isApproved :: bool
  ea_timestamp :: int
  ea_recordedAt :: int

datatype pullback_status = Pending | Completed | Failed

record ERC20Pullback =
  pb_tokenContract :: string
  pb_tokenSymbol :: string
  pb_tokenName :: string
  pb_tokenDecimals :: nat
  pb_fromAddress :: string
  pb_operatorAddress :: string
  pb_amount :: string
  pb_txHash :: string
  pb_blockNumber :: "nat option"
  pb_timestamp :: int
  pb_status :: pullback_status
  pb_errorMessage :: "string option"

record AuditLog =
  al_action :: string
  al_tokenId :: "string option"
  al_walletAddress :: string
  al_txHash :: "string option"
  al_metadata :: "(string \<times> string) list"
  al_timestamp :: int

text \<open>
  Every call made on the contract or the provider is recorded, in order, so that a
  theorem can say which calls a request made. \<open>CallPullBack\<close> and
  \<open>CallPullBackERC20\<close> are the two transactions the pull-back code submits.
\<close>

datatype chain_call =
    CallIsApprovedForAll string string
  | CallOwnerOf string
  | CallPullBack string string
  | CallCheckERC20Status string string
  | CallPullBackERC20 string string string
  | CallERC20Info string
  | CallGetTransactionReceipt string
  | CallWaitForTransaction string
  | CallGetBlock nat

fun isWriteCall :: "chain_call \<Rightarrow> bool" where
  "isWriteCall (CallPullBack from tokenId) = True"
| "isWriteCall (CallPullBackERC20 tokenContract from amount) = True"
| "isWriteCall call = False"

text \<open>The database collections and the log of chain calls.\<close>

record world =
  nfts :: "NFT list"
  approvals :: "Approval list"
  erc20Approvals :: "ERC20Approval list"
  erc20Pullbacks :: "ERC20Pullback list"
  auditLogs :: "AuditLog list"
  chainCalls :: "chain_call list"

text \<open>
  The chain as the node answers during one request (the same read gives the same answer
  within it): \<open>None\<close> is a call that throws
  (RPC failure or revert). A receipt is its block number; \<open>Some None\<close> is the
  \<open>null\<close> receipt of an unknown transaction. A transaction answers with its hash once
  \<open>tx.wait()\<close> has returned.
\<close>

record chain =
  isApprovedForAll :: "string \<Rightarrow> string \<Rightarrow> bool option"
  ownerOf :: "string \<Rightarrow> string option"
  pullBack :: "string \<Rightarrow> string \<Rightarrow> string option"
  checkERC20Status_call :: "string \<Rightarrow> string \<Rightarrow> (nat \<times> nat) option"
  pullBackERC20_call :: "string \<Rightarrow> string \<Rightarrow> string \<Rightarrow> string option"
  erc20Info :: "string \<Rightarrow> (string \<times> string \<times> nat) option"
  getTransactionReceipt_call :: "string \<Rightarrow> nat option option"
  waitForTransaction_call :: "string \<Rightarrow> nat option option"
  getBlock :: "nat \<Rightarrow> int option option"

text \<open>A controller answers with a status code and a body.\<close>

datatype 'a response =
    Success 'a
  | Failure nat string "(string \<times> string) list"

section \<open>Persistence (mongoose)\<close>

text \<open>
  A thrown error is its message. The two errors of \<open>Model.create\<close>: a required string
  that is missing or empty, and a duplicate key of a unique index. The database itself
  is taken to be reachable, and a collection is the list of its rows in insertion order.
\<close>

definition ValidationError :: string where
  "ValidationError = ''Validation failed''"

definition DuplicateKeyError :: string where
  "DuplicateKeyError = ''E11000 duplicate key error''"

definition NFT_findOne :: "NFT list \<Rightarrow> string \<Rightarrow> NFT option" where
  "NFT_findOne rows tokenId = find (\<lambda>n. nft_tokenId n = tokenId) rows"

text \<open>\<open>doc.save()\<close> writes the document back over the row it was read from.\<close>

fun NFT_save :: "NFT list \<Rightarrow> NFT \<Rightarrow> NFT list" where
  "NFT_save [] doc = []"
| "NFT_save (n # rows) doc =
     (if nft_tokenId n = nft_tokenId doc then doc # rows else n # NFT_save rows doc)"

text \<open>\<open>NFT.findOneAndUpdate({ tokenId }, update)\<close>, without upsert.\<close>

fun NFT_findOneAndUpdate :: "NFT list \<Rightarrow> string \<Rightarrow> (NFT \<Rightarrow> NFT) \<Rightarrow> NFT list" where
  "NFT_findOneAndUpdate [] tokenId upd = []"
| "NFT_findOneAndUpdate (n # rows) tokenId upd =
     (if nft_tokenId n = tokenId then upd n # rows
      else n # NFT_findOneAndUpdate rows tokenId upd)"

text \<open>\<open>Approval.create\<close>: \<open>txHash\<close> carries a unique index.\<close>

definition Approval_create :: "Approval list \<Rightarrow> Approval \<Rightarrow> string + Approval list" where
  "Approval_create rows doc =
     (if ap_walletAddress doc = [] \<or> ap_operatorAddress doc = [] \<or> ap_txHash doc = []
      then Inl ValidationError
      else if ap_txHash doc \<in> set (map ap_txHash rows) then Inl DuplicateKeyError
      else Inr (rows @ [doc]))"

text \<open>
  \<open>Approval.findOneAndUpdate({ walletAddress, operatorAddress }, doc, { upsert: true })\<close>:
  the first row of the pair is overwritten, or the document is inserted; the unique
  index on \<open>txHash\<close> rejects a hash that one of the other rows holds.
\<close>

fun Approval_replaceFirst :: "Approval list \<Rightarrow> Approval \<Rightarrow> Approval list" where
  "Approval_replaceFirst [] doc = [doc]"
| "Approval_replaceFirst (r # rows) doc =
     (if ap_walletAddress r = ap_walletAddress doc \<and> ap_operatorAddress r = ap_operatorAddress doc
      then doc # rows else r # Approval_replaceFirst rows doc)"

fun Approval_otherRows :: "Approval list \<Rightarrow> Approval \<Rightarrow> Approval list" where
  "Approval_otherRows [] doc = []"
| "Approval_otherRows (r # rows) doc =
     (if ap_walletAddress r = ap_walletAddress doc \<and> ap_operatorAddress r = ap_operatorAddress doc
      then rows else r # Approval_otherRows rows doc)"

definition Approval_upsert :: "Approval list \<Rightarrow> Approval \<Rightarrow> string + Approval list" where
  "Approval_upsert rows doc =
     (if ap_txHash doc \<in> set (map ap_txHash (Approval_otherRows rows doc))
      then Inl DuplicateKeyError
      else Inr (Approval_replaceFirst rows doc))"

definition ERC20Approval_findOne :: "ERC20Approval list \<Rightarrow> string \<Rightarrow> string \<Rightarrow> ERC20Approval option" where
  "ERC20Approval_findOne rows txHash tokenContract =
     find (\<lambda>a. ea_txHash a = txHash \<and> ea_tokenContract a = tokenContract) rows"

text \<open>\<open>ERC20Approval.create\<close>: the pair (txHash, tokenContract) carries a unique index.\<close>

definition ERC20Approval_create :: "ERC20Approval list \<Rightarrow> ERC20Approval \<Rightarrow> string + ERC20Approval list" where
  "ERC20Approval_create rows doc =
     (if ea_walletAddress doc = [] \<or> ea_operatorAddress doc = [] \<or> ea_tokenContract doc = []
         \<or> ea_tokenSymbol doc = [] \<or> ea_txHash doc = []
      then Inl ValidationError
      else if (ea_txHash doc, ea_tokenContract doc) \<in> set (map (\<lambda>r. (ea_txHash r, ea_tokenContract r)) rows)
      then Inl DuplicateKeyError
      else Inr (rows @ [doc]))"

text \<open>
  \<open>ERC20Pullback.create\<close>: every string of the schema is required, \<open>txHash\<close> included,
  and \<open>txHash\<close> carries a unique index.
\<close>

definition ERC20Pullback_create :: "ERC20Pullback list \<Rightarrow> ERC20Pullback \<Rightarrow> string + ERC20Pullback list" where
  "ERC20Pullback_create rows doc =
     (if pb_tokenContract doc = [] \<or> pb_tokenSymbol doc = [] \<or> pb_tokenName doc = []
         \<or> pb_fromAddress doc = [] \<or> pb_operatorAddress doc = [] \<or> pb_amount doc = []
         \<or> pb_txHash doc = []
      then Inl ValidationError
      else if pb_txHash doc \<in> set (map pb_txHash rows) then Inl DuplicateKeyError
      else Inr (rows @ [doc]))"

text \<open>
  \<open>createAuditLog\<close> (middleware/auditLog.ts): the entry is written; a failure of the write
  is caught and logged, so the caller never sees it.
\<close>

definition createAuditLog ::
  "world \<Rightarrow> int \<Rightarrow> string \<Rightarrow> string \<Rightarrow> (string \<times> string) list \<Rightarrow> string option \<Rightarrow> string option \<Rightarrow> world" where
  "createAuditLog w now action walletAddress metadata tokenId txHash =
     (if action = [] \<or> toLowerCase walletAddress = [] then w
      else w\<lparr>auditLogs := auditLogs w @
        [\<lparr>al_action = action, al_tokenId = tokenId, al_walletAddress = toLowerCase walletAddress,
          al_txHash = txHash, al_metadata = metadata, al_timestamp = now\<rparr>]\<rparr>)"

section \<open>Chain gateway (services/blockchainService.ts)\<close>

definition logCall :: "chain_call \<Rightarrow> world \<Rightarrow> world" where
  "logCall call w = w\<lparr>chainCalls := chainCalls w @ [call]\<rparr>"

definition bs_checkApproval :: "chain \<Rightarrow> world \<Rightarrow> string \<Rightarrow> string \<Rightarrow> (string + bool) \<times> world" where
  "bs_checkApproval c w owner operator =
     (case isApprovedForAll c owner operator of
        None \<Rightarrow> Inl ''Failed to check approval status''
      | Some isApproved \<Rightarrow> Inr isApproved,
      logCall (CallIsApprovedForAll owner operator) w)"

definition bs_getTokenOwner :: "chain \<Rightarrow> world \<Rightarrow> string \<Rightarrow> (string + string) \<times> world" where
  "bs_getTokenOwner c w tokenId =
     (case ownerOf c tokenId of
        None \<Rightarrow> Inl ''Failed to get token owner''
      | Some owner \<Rightarrow> Inr owner,
      logCall (CallOwnerOf tokenId) w)"

text \<open>
  \<open>pullToken\<close> of the service checks the approval of its own wallet first; every error
  inside its \<open>try\<close> is rethrown as \<open>Failed to pull token\<close>.
\<close>

definition bs_pullToken :: "chain \<Rightarrow> string \<Rightarrow> world \<Rightarrow> string \<Rightarrow> string \<Rightarrow> (string + string) \<times> world" where
  "bs_pullToken c walletAddress w from tokenId =
     (case bs_checkApproval c w from walletAddress of
        (Inl m, w1) \<Rightarrow> (Inl ''Failed to pull token'', w1)
      | (Inr False, w1) \<Rightarrow> (Inl ''Failed to pull token'', w1)
      | (Inr True, w1) \<Rightarrow>
          (case pullBack c from tokenId of
             None \<Rightarrow> Inl ''Failed to pull token''
           | Some txHash \<Rightarrow> Inr txHash,
           logCall (CallPullBack from tokenId) w1))"

definition bs_checkERC20Status ::
  "chain \<Rightarrow> world \<Rightarrow> string \<Rightarrow> string \<Rightarrow> (string + string \<times> string) \<times> world" where
  "bs_checkERC20Status c w tokenContract holder =
     (case checkERC20Status_call c tokenContract holder of
        None \<Rightarrow> Inl ''Failed to check ERC-20 token status''
      | Some (balance, allowance) \<Rightarrow> Inr (toString balance, toString allowance),
      logCall (CallCheckERC20Status tokenContract holder) w)"

definition bs_pullBackERC20 ::
  "chain \<Rightarrow> world \<Rightarrow> string \<Rightarrow> string \<Rightarrow> string \<Rightarrow> (string + string) \<times> world" where
  "bs_pullBackERC20 c w tokenContract from amount =
     (case bs_checkERC20Status c w tokenContract from of
        (Inl m, w1) \<Rightarrow> (Inl ''Failed to pull back ERC-20 tokens'', w1)
      | (Inr (balance, allowance), w1) \<Rightarrow>
          (case bigIntLess allowance amount of
             Inl m \<Rightarrow> (Inl ''Failed to pull back ERC-20 tokens'', w1)
           | Inr True \<Rightarrow> (Inl ''Failed to pull back ERC-20 tokens'', w1)
           | Inr False \<Rightarrow>
               (case bigIntLess balance amount of
                  Inl m \<Rightarrow> (Inl ''Failed to pull back ERC-20 tokens'', w1)
                | Inr True \<Rightarrow> (Inl ''Failed to pull back ERC-20 tokens'', w1)
                | Inr False \<Rightarrow>
                    (case pullBackERC20_call c tokenContract from amount of
                       None \<Rightarrow> Inl ''Failed to pull back ERC-20 tokens''
                     | Some txHash \<Rightarrow> Inr txHash,
                     logCall (CallPullBackERC20 tokenContract from amount) w1))))"

definition bs_getERC20TokenInfo ::
  "chain \<Rightarrow> world \<Rightarrow> string \<Rightarrow> (string + string \<times> string \<times> nat) \<times> world" where
  "bs_getERC20TokenInfo c w tokenContract =
     (case erc20Info c tokenContract of
        None \<Rightarrow> Inl ''Failed to get token information''
      | Some info \<Rightarrow> Inr info,
      logCall (CallERC20Info tokenContract) w)"

text \<open>\<open>getTransactionReceipt\<close> returns \<open>null\<close> when the provider throws.\<close>

definition bs_getTransactionReceipt :: "chain \<Rightarrow> world \<Rightarrow> string \<Rightarrow> nat option \<times> world" where
  "bs_getTransactionReceipt c w txHash =
     (case getTransactionReceipt_call c txHash of
        None \<Rightarrow> None
      | Some receipt \<Rightarrow> receipt,
      logCall (CallGetTransactionReceipt txHash) w)"

definition bs_waitForTransaction :: "chain \<Rightarrow> world \<Rightarrow> string \<Rightarrow> (string + nat) \<times> world" where
  "bs_waitForTransaction c w txHash =
     (case waitForTransaction_call c txHash of
        None \<Rightarrow> Inl ''Transaction confirmation failed''
      | Some None \<Rightarrow> Inl ''Transaction confirmation failed''
      | Some (Some blockNumber) \<Rightarrow> Inr blockNumber,
      logCall (CallWaitForTransaction txHash) w)"

section \<open>Pull-back controller (controllers/tokenController.ts)\<close>

text \<open>The string of a request field that has passed its presence check.\<close>

definition str :: "string option \<Rightarrow> string" where
  "str x = (case x of None \<Rightarrow> [] | Some s \<Rightarrow> s)"

record pullTokenData =
  pt_tokenId :: string
  pt_txHash :: string
  pt_fromAddress :: string
  pt_toAddress :: string
  pt_nft :: NFT

text \<open>
  \<open>pullToken\<close>, POST /api/pull/:tokenId. \<open>walletAddress\<close> is the address of the
  service's own wallet, \<open>now\<close> the clock.
\<close>

definition pullToken ::
  "chain \<Rightarrow> string \<Rightarrow> world \<Rightarrow> int \<Rightarrow> string \<Rightarrow> string option \<Rightarrow> pullTokenData response \<times> world" where
  "pullToken c walletAddress w now tokenId operatorAddress =
     (if \<not> truthy operatorAddress then (Failure 400 ''Missing operatorAddress'' [], w)
      else
        (case NFT_findOne (nfts w) tokenId of
           None \<Rightarrow> (Failure 404 ''NFT not found'' [], w)
         | Some nft \<Rightarrow>
             if nft_status nft \<noteq> Minted \<and> nft_status nft \<noteq> Redeemed
             then (Failure 400 ''NFT not yet minted or redeemed'' [], w)
             else
               (case bs_getTokenOwner c w tokenId of
                  (Inl m, w1) \<Rightarrow> (Failure 500 (orElse m ''Failed to pull token'') [], w1)
                | (Inr currentOwner, w1) \<Rightarrow>
                    (case bs_checkApproval c w1 currentOwner (str operatorAddress) of
                       (Inl m, w2) \<Rightarrow> (Failure 500 (orElse m ''Failed to pull token'') [], w2)
                     | (Inr False, w2) \<Rightarrow>
                         (Failure 403 ''Operator not approved by token owner''
                            [(''currentOwner'', currentOwner),
                             (''operatorAddress'', str operatorAddress)], w2)
                     | (Inr True, w2) \<Rightarrow>
                         (case bs_pullToken c walletAddress w2 currentOwner tokenId of
                            (Inl m, w3) \<Rightarrow> (Failure 500 (orElse m ''Failed to pull token'') [], w3)
                          | (Inr txHash, w3) \<Rightarrow>
                              (let doc = nft\<lparr>nft_status := Pulled, nft_pullTxHash := Some txHash\<rparr>;
                                   w4 = w3\<lparr>nfts := NFT_save (nfts w3) doc\<rparr>;
                                   w5 = createAuditLog w4 now ''token_pulled'' (str operatorAddress)
                                          [(''tokenId'', tokenId), (''fromAddress'', currentOwner),
                                           (''txHash'', txHash)] (Some tokenId) (Some txHash)
                               in (Success \<lparr>pt_tokenId = tokenId, pt_txHash = txHash,
                                     pt_fromAddress = currentOwner,
                                     pt_toAddress = str operatorAddress, pt_nft = doc\<rparr>, w5)))))))"

record pullBackERC20Data =
  pe_txHash :: string
  pe_tokenInfo :: "string \<times> string \<times> nat"
  pe_fromAddress :: string
  pe_operatorAddress :: string
  pe_amount :: string
  pe_blockNumber :: nat
  pe_record :: ERC20Pullback

text \<open>
  The \<open>catch\<close> block of \<open>pullBackERC20\<close>: with a token contract and a holder in the
  request it fetches the token information again and tries to write a \<open>failed\<close> row
  with an empty \<open>txHash\<close>; an error of either step is logged only. The answer is the
  500 with the message of the original error.
\<close>

definition pullBackERC20_catch ::
  "chain \<Rightarrow> world \<Rightarrow> int \<Rightarrow> string option \<Rightarrow> string option \<Rightarrow> string option \<Rightarrow> string option \<Rightarrow>
   string \<Rightarrow> pullBackERC20Data response \<times> world" where
  "pullBackERC20_catch c w now tokenContract fromAddress amount operatorAddress message =
     (Failure 500 (orElse message ''Failed to pull back ERC-20 tokens'') [],
      if truthy tokenContract \<and> truthy fromAddress then
        (case bs_getERC20TokenInfo c w (str tokenContract) of
           (Inl m, w1) \<Rightarrow> w1
         | (Inr (name, symbol, decimals), w1) \<Rightarrow>
             (case ERC20Pullback_create (erc20Pullbacks w1)
                     \<lparr>pb_tokenContract = toLowerCase (str tokenContract),
                      pb_tokenSymbol = symbol, pb_tokenName = name, pb_tokenDecimals = decimals,
                      pb_fromAddress = toLowerCase (str fromAddress),
                      pb_operatorAddress = orElse (toLowerCase (str operatorAddress)) [],
                      pb_amount = orElse (str amount) ''0'',
                      pb_txHash = [], pb_blockNumber = None, pb_timestamp = now,
                      pb_status = Failed, pb_errorMessage = Some message\<rparr> of
                Inl m \<Rightarrow> w1
              | Inr rows \<Rightarrow> w1\<lparr>erc20Pullbacks := rows\<rparr>))
      else w)"

text \<open>\<open>pullBackERC20\<close>, POST /api/erc20/pull.\<close>

definition pullBackERC20 ::
  "chain \<Rightarrow> world \<Rightarrow> int \<Rightarrow> string option \<Rightarrow> string option \<Rightarrow> string option \<Rightarrow> string option \<Rightarrow>
   pullBackERC20Data response \<times> world" where
  "pullBackERC20 c w now tokenContract fromAddress amount operatorAddress =
     (if \<not> truthy tokenContract \<or> \<not> truthy fromAddress \<or> \<not> truthy amount \<or> \<not> truthy operatorAddress
      then (Failure 400
              ''Missing required fields: tokenContract, fromAddress, amount, operatorAddress'' [], w)
      else
        (case bs_getERC20TokenInfo c w (str tokenContract) of
           (Inl m, w1) \<Rightarrow>
             pullBackERC20_catch c w1 now tokenContract fromAddress amount operatorAddress m
         | (Inr tokenInfo, w1) \<Rightarrow>
        (case bs_checkERC20Status c w1 (str tokenContract) (str fromAddress) of
           (Inl m, w2) \<Rightarrow>
             pullBackERC20_catch c w2 now tokenContract fromAddress amount operatorAddress m
         | (Inr (balance, allowance), w2) \<Rightarrow>
        (case bigIntLess allowance (str amount) of
           Inl m \<Rightarrow>
             pullBackERC20_catch c w2 now tokenContract fromAddress amount operatorAddress m
         | Inr True \<Rightarrow>
             (Failure 400 ''Insufficient token allowance''
                [(''required'', str amount), (''current'', allowance)], w2)
         | Inr False \<Rightarrow>
        (case bigIntLess balance (str amount) of
           Inl m \<Rightarrow>
             pullBackERC20_catch c w2 now tokenContract fromAddress amount operatorAddress m
         | Inr True \<Rightarrow>
             (Failure 400 ''Insufficient token balance''
                [(''required'', str amount), (''current'', balance)], w2)
         | Inr False \<Rightarrow>
        (case bs_pullBackERC20 c w2 (str tokenContract) (str fromAddress) (str amount) of
           (Inl m, w3) \<Rightarrow>
             pullBackERC20_catch c w3 now tokenContract fromAddress amount operatorAddress m
         | (Inr txHash, w3) \<Rightarrow>
        (case bs_waitForTransaction c w3 txHash of
           (Inl m, w4) \<Rightarrow>
             pullBackERC20_catch c w4 now tokenContract fromAddress amount operatorAddress m
         | (Inr blockNumber, w4) \<Rightarrow>
        (let pullbackRecord =
               \<lparr>pb_tokenContract = toLowerCase (str tokenContract),
                pb_tokenSymbol = fst (snd tokenInfo), pb_tokenName = fst tokenInfo,
                pb_tokenDecimals = snd (snd tokenInfo),
                pb_fromAddress = toLowerCase (str fromAddress),
                pb_operatorAddress = toLowerCase (str operatorAddress),
                pb_amount = str amount, pb_txHash = txHash, pb_blockNumber = Some blockNumber,
                pb_timestamp = now, pb_status = Completed, pb_errorMessage = None\<rparr>
         in case ERC20Pullback_create (erc20Pullbacks w4) pullbackRecord of
              Inl m \<Rightarrow>
                pullBackERC20_catch c w4 now tokenContract fromAddress amount operatorAddress m
            | Inr rows \<Rightarrow>
                (let w5 = w4\<lparr>erc20Pullbacks := rows\<rparr>;
                     w6 = createAuditLog w5 now ''erc20_pulled'' (str operatorAddress)
                            [(''tokenContract'', str tokenContract),
                             (''tokenSymbol'', fst (snd tokenInfo)),
                             (''fromAddress'', str fromAddress), (''amount'', str amount),
                             (''txHash'', txHash)] (Some (str fromAddress)) (Some txHash)
                 in (Success \<lparr>pe_txHash = txHash, pe_tokenInfo = tokenInfo,
                       pe_fromAddress = str fromAddress,
                       pe_operatorAddress = str operatorAddress, pe_amount = str amount,
                       pe_blockNumber = blockNumber, pe_record = pullbackRecord\<rparr>, w6))))))))))"

section \<open>Approval controller (controllers/approvalController.ts)\<close>

text \<open>\<open>recordApproval\<close>, POST /api/record-approval.\<close>

definition recordApproval ::
  "chain \<Rightarrow> world \<Rightarrow> int \<Rightarrow> string option \<Rightarrow> string option \<Rightarrow> string option \<Rightarrow>
   Approval response \<times> world" where
  "recordApproval c w now walletAddress operatorAddress txHash =
     (if \<not> truthy walletAddress \<or> \<not> truthy operatorAddress \<or> \<not> truthy txHash
      then (Failure 400 ''Missing required fields'' [], w)
      else
        (case bs_getTransactionReceipt c w (str txHash) of
           (None, w1) \<Rightarrow> (Failure 400 ''Transaction not found or not confirmed'' [], w1)
         | (Some blockNumber, w1) \<Rightarrow>
             (case bs_checkApproval c w1 (str walletAddress) (str operatorAddress) of
                (Inl m, w2) \<Rightarrow> (Failure 500 (orElse m ''Failed to record approval'') [], w2)
              | (Inr isApproved, w2) \<Rightarrow>
                  (let approval =
                         \<lparr>ap_walletAddress = toLowerCase (str walletAddress),
                          ap_operatorAddress = toLowerCase (str operatorAddress),
                          ap_isApproved = isApproved, ap_txHash = str txHash,
                          ap_blockNumber = blockNumber, ap_timestamp = now, ap_recordedAt = now\<rparr>
                   in case Approval_create (approvals w2) approval of
                        Inl m \<Rightarrow> (Failure 500 (orElse m ''Failed to record approval'') [], w2)
                      | Inr rows \<Rightarrow>
                          (let w3 = w2\<lparr>approvals := rows\<rparr>;
                               w4 = createAuditLog w3 now ''approval_recorded'' (str walletAddress)
                                      [(''operatorAddress'', str operatorAddress),
                                       (''isApproved'', if isApproved then ''true'' else ''false''),
                                       (''txHash'', str txHash)] None (Some (str txHash))
                           in (Success approval, w4))))))"

definition USDT_ADDRESS :: string where
  "USDT_ADDRESS = ''0xbDeaD2A70Fe794D2f97b37EFDE497e68974a296d''"

definition USDC_ADDRESS :: string where
  "USDC_ADDRESS = ''0x94a9D9AC8a22534E3FaCa9F4e7F2E2cf85d5E4C8''"

text \<open>
  \<open>TOKEN_INFO\<close> is an object literal with the two lower-cased addresses as keys.
  \<open>TOKEN_INFO[key]\<close> is the entry of an own key; for a key that every object inherits
  from \<open>Object.prototype\<close> it is that inherited value, which is truthy and has no
  \<open>symbol\<close>; otherwise it is \<open>undefined\<close>.
\<close>

definition TOKEN_INFO :: "(string \<times> string \<times> string) list" where
  "TOKEN_INFO =
     [(toLowerCase USDT_ADDRESS, ''USDT'', ''Tether USD''),
      (toLowerCase USDC_ADDRESS, ''USDC'', ''USD Coin'')]"

definition objectPrototypeKeys :: "string list" where
  "objectPrototypeKeys =
     [''constructor'', ''__proto__'', ''hasOwnProperty'', ''isPrototypeOf'',
      ''propertyIsEnumerable'', ''toLocaleString'', ''toString'', ''valueOf'',
      ''__defineGetter__'', ''__defineSetter__'', ''__lookupGetter__'', ''__lookupSetter__'']"

datatype tokenInfoEntry = OwnEntry string string | InheritedValue

definition TOKEN_INFO_get :: "string \<Rightarrow> tokenInfoEntry option" where
  "TOKEN_INFO_get key =
     (case map_of TOKEN_INFO key of
        Some (symbol, name) \<Rightarrow> Some (OwnEntry symbol name)
      | None \<Rightarrow> if key \<in> set objectPrototypeKeys then Some InheritedValue else None)"

text \<open>\<open>tokenInfo.symbol\<close>; the empty string stands for \<open>undefined\<close>.\<close>

fun entrySymbol :: "tokenInfoEntry \<Rightarrow> string" where
  "entrySymbol (OwnEntry symbol name) = symbol"
| "entrySymbol InheritedValue = []"

text \<open>
  \<open>recordERC20Approval\<close>, POST /api/approvals/erc20. The answer carries the row and the
  \<open>alreadyRecorded\<close> flag (absent, here \<open>False\<close>, for a new row).
\<close>

definition recordERC20Approval ::
  "chain \<Rightarrow> world \<Rightarrow> int \<Rightarrow> string option \<Rightarrow> string option \<Rightarrow> string option \<Rightarrow> string option \<Rightarrow>
   (ERC20Approval \<times> bool) response \<times> world" where
  "recordERC20Approval c w now walletAddress operatorAddress tokenContract txHash =
     (if \<not> truthy walletAddress \<or> \<not> truthy operatorAddress \<or> \<not> truthy tokenContract \<or> \<not> truthy txHash
      then (Failure 400
              ''Missing required fields: walletAddress, operatorAddress, tokenContract, txHash'' [], w)
      else
        (let tokenContractLower = toLowerCase (str tokenContract) in
         case TOKEN_INFO_get tokenContractLower of
           None \<Rightarrow> (Failure 400 ''Unsupported token contract'' [], w)
         | Some tokenInfo \<Rightarrow>
             (case ERC20Approval_findOne (erc20Approvals w) (str txHash) tokenContractLower of
                Some existing \<Rightarrow> (Success (existing, True), w)
              | None \<Rightarrow>
                  (case bs_getTransactionReceipt c w (str txHash) of
                     (None, w1) \<Rightarrow> (Failure 400 ''Transaction not found or not confirmed'' [], w1)
                   | (Some blockNumber, w1) \<Rightarrow>
                       (let approval =
                              \<lparr>ea_walletAddress = toLowerCase (str walletAddress),
                               ea_operatorAddress = toLowerCase (str operatorAddress),
                               ea_tokenContract = tokenContractLower,
                               ea_tokenSymbol = entrySymbol tokenInfo,
                               ea_txHash = str txHash, ea_blockNumber = blockNumber,
                               ea_isApproved = True, ea_timestamp = now, ea_recordedAt = now\<rparr>
                        in case ERC20Approval_create (erc20Approvals w1) approval of
                             Inl m \<Rightarrow>
                               (Failure 500 (orElse m ''Failed to record ERC-20 approval'') [], w1)
                           | Inr rows \<Rightarrow>
                               (let w2 = w1\<lparr>erc20Approvals := rows\<rparr>;
                                    w3 = createAuditLog w2 now ''erc20_approval_recorded''
                                           (str walletAddress)
                                           [(''operatorAddress'', str operatorAddress),
                                            (''tokenContract'', str tokenContract),
                                            (''tokenSymbol'', entrySymbol tokenInfo),
                                            (''txHash'', str txHash)] None (Some (str txHash))
                                in (Success (approval, False), w3)))))))"

subsection \<open>Connected recipients\<close>

text \<open>\<open>[...new Set(xs)]\<close>: the elements in the order of their first occurrence.\<close>

fun setAddAll :: "'a list \<Rightarrow> 'a list \<Rightarrow> 'a list" where
  "setAddAll seen [] = seen"
| "setAddAll seen (x # xs) = setAddAll (if x \<in> set seen then seen else seen @ [x]) xs"

definition newSet :: "'a list \<Rightarrow> 'a list" where
  "newSet xs = setAddAll [] xs"

text \<open>
  \<open>Array.prototype.sort(compare)\<close> is stable; for a comparator that orders the elements
  consistently its result is the stable insertion of each element, where \<open>x\<close> goes before
  \<open>y\<close> when \<open>compare(x, y) \<le> 0\<close>.
\<close>

fun insertSorted :: "('a \<Rightarrow> 'a \<Rightarrow> int) \<Rightarrow> 'a \<Rightarrow> 'a list \<Rightarrow> 'a list" where
  "insertSorted compare x [] = [x]"
| "insertSorted compare x (y # ys) =
     (if compare x y \<le> 0 then x # y # ys else y # insertSorted compare x ys)"

definition sortWith :: "('a \<Rightarrow> 'a \<Rightarrow> int) \<Rightarrow> 'a list \<Rightarrow> 'a list" where
  "sortWith compare xs = foldr (insertSorted compare) xs []"

record tokenApproval =
  ta_approved :: bool
  ta_allowance :: string
  ta_txHash :: "string option"
  ta_approvedAt :: "int option"

record nftReceived =
  nr_tokenId :: string
  nr_filename :: string
  nr_status :: nft_status
  nr_receivedAt :: int

record pullbackEntry =
  ph_tokenSymbol :: string
  ph_amount :: string
  ph_txHash :: string
  ph_timestamp :: int

record RecipientSummary =
  rs_walletAddress :: string
  rs_nftApproved :: bool
  rs_usdt :: tokenApproval
  rs_usdc :: tokenApproval
  rs_usdtBalance :: string
  rs_usdcBalance :: string
  rs_nftsReceived :: "nftReceived list"
  rs_pullbackHistory :: "pullbackEntry list"
  rs_firstApprovalAt :: "int option"
  rs_totalNFTs :: nat
  rs_hasAnyApproval :: bool

text \<open>
  The live reads of one recipient. Each sits in its own \<open>try\<close>: a read that throws
  leaves the initial \<open>'0'\<close>, \<open>'0'\<close> or \<open>false\<close>.
\<close>

definition liveERC20Status :: "chain \<Rightarrow> world \<Rightarrow> string \<Rightarrow> string \<Rightarrow> string \<times> string" where
  "liveERC20Status c w tokenContract recipientAddress =
     (case fst (bs_checkERC20Status c w tokenContract recipientAddress) of
        Inl m \<Rightarrow> (''0'', ''0'')
      | Inr (balance, allowance) \<Rightarrow> (balance, allowance))"

definition liveNFTApproval :: "chain \<Rightarrow> world \<Rightarrow> string \<Rightarrow> string \<Rightarrow> bool" where
  "liveNFTApproval c w recipientAddress contractAddress =
     (case fst (bs_checkApproval c w recipientAddress contractAddress) of
        Inl m \<Rightarrow> False
      | Inr approved \<Rightarrow> approved)"

text \<open>\<open>Math.min(...ts)\<close> of a non-empty list.\<close>

fun minOf :: "int \<Rightarrow> int list \<Rightarrow> int" where
  "minOf m [] = m"
| "minOf m (t # ts) = minOf (min m t) ts"

text \<open>
  \<open>ERC20Pullback.find(...).sort({ timestamp: -1 })\<close>: the completed pull-backs of the
  pair, latest first.
\<close>

definition comparePullbacks :: "ERC20Pullback \<Rightarrow> ERC20Pullback \<Rightarrow> int" where
  "comparePullbacks a b = pb_timestamp b - pb_timestamp a"

definition findPullbackHistory :: "ERC20Pullback list \<Rightarrow> string \<Rightarrow> string \<Rightarrow> ERC20Pullback list" where
  "findPullbackHistory rows fromAddress operatorAddress =
     sortWith comparePullbacks
       (filter (\<lambda>p. pb_fromAddress p = fromAddress \<and> pb_operatorAddress p = operatorAddress
                     \<and> pb_status p = Completed) rows)"

text \<open>
  The callback of \<open>uniqueRecipients.map\<close>: the summary of one recipient. The only
  exception left inside it is the SyntaxError of a \<open>BigInt\<close> conversion.
\<close>

definition recipientSummary ::
  "chain \<Rightarrow> world \<Rightarrow> string \<Rightarrow> string \<Rightarrow> ERC20Approval list \<Rightarrow> NFT list \<Rightarrow> string \<Rightarrow>
   string + RecipientSummary" where
  "recipientSummary c w operatorAddress contractAddress storedERC20Approvals nftRows recipientAddress =
     (let recipientApprovals =
            filter (\<lambda>a. toLowerCase (ea_walletAddress a) = recipientAddress) storedERC20Approvals;
          storedUsdtApproval =
            find (\<lambda>a. toLowerCase (ea_tokenContract a) = toLowerCase USDT_ADDRESS) recipientApprovals;
          storedUsdcApproval =
            find (\<lambda>a. toLowerCase (ea_tokenContract a) = toLowerCase USDC_ADDRESS) recipientApprovals;
          recipientNFTs =
            map (\<lambda>n. \<lparr>nr_tokenId = nft_tokenId n,
                       nr_filename = orElse (str (nft_originalFilename n)) ''Unknown'',
                       nr_status = nft_status n, nr_receivedAt = nft_createdAt n\<rparr>)
              (filter (\<lambda>n. toLowerCase (nft_recipientAddress n) = recipientAddress) nftRows);
          pullbackHistory = findPullbackHistory (erc20Pullbacks w) recipientAddress operatorAddress;
          (usdtBalance, usdtAllowance) = liveERC20Status c w USDT_ADDRESS recipientAddress;
          (usdcBalance, usdcAllowance) = liveERC20Status c w USDC_ADDRESS recipientAddress;
          nftApprovalStatus = liveNFTApproval c w recipientAddress contractAddress;
          approvalTimestamps = map ea_timestamp recipientApprovals;
          firstApprovalAt =
            (case approvalTimestamps of [] \<Rightarrow> None | t # ts \<Rightarrow> Some (minOf t ts));
          hasStoredApproval = (storedUsdtApproval \<noteq> None \<or> storedUsdcApproval \<noteq> None)
      in case bigIntPositive usdtAllowance of
           Inl m \<Rightarrow> Inl m
         | Inr usdtPositive \<Rightarrow>
        (case (if usdtPositive then Inr True else bigIntPositive usdcAllowance) of
           Inl m \<Rightarrow> Inl m
         | Inr tokenPositive \<Rightarrow>
        (case (if storedUsdcApproval \<noteq> None then Inr True else bigIntPositive usdcAllowance) of
           Inl m \<Rightarrow> Inl m
         | Inr usdcApproved \<Rightarrow>
             Inr \<lparr>rs_walletAddress = recipientAddress,
                  rs_nftApproved = nftApprovalStatus,
                  rs_usdt = \<lparr>ta_approved = (storedUsdtApproval \<noteq> None \<or> usdtPositive),
                             ta_allowance = usdtAllowance,
                             ta_txHash = map_option ea_txHash storedUsdtApproval,
                             ta_approvedAt = map_option ea_timestamp storedUsdtApproval\<rparr>,
                  rs_usdc = \<lparr>ta_approved = usdcApproved,
                             ta_allowance = usdcAllowance,
                             ta_txHash = map_option ea_txHash storedUsdcApproval,
                             ta_approvedAt = map_option ea_timestamp storedUsdcApproval\<rparr>,
                  rs_usdtBalance = usdtBalance,
                  rs_usdcBalance = usdcBalance,
                  rs_nftsReceived = recipientNFTs,
                  rs_pullbackHistory =
                    map (\<lambda>p. \<lparr>ph_tokenSymbol = pb_tokenSymbol p, ph_amount = pb_amount p,
                               ph_txHash = pb_txHash p, ph_timestamp = pb_timestamp p\<rparr>)
                      pullbackHistory,
                  rs_firstApprovalAt = firstApprovalAt,
                  rs_totalNFTs = length recipientNFTs,
                  rs_hasAnyApproval =
                    (hasStoredApproval \<or> tokenPositive \<or> nftApprovalStatus)\<rparr>)))"

text \<open>\<open>Promise.all\<close>: all the values, or the rejection of a callback that threw.\<close>

fun promiseAll :: "(string + 'a) list \<Rightarrow> string + 'a list" where
  "promiseAll [] = Inr []"
| "promiseAll (Inl m # rs) = Inl m"
| "promiseAll (Inr v # rs) = (case promiseAll rs of Inl m \<Rightarrow> Inl m | Inr vs \<Rightarrow> Inr (v # vs))"

text \<open>The comparator of the final sort.\<close>

definition compareFirstApproval :: "RecipientSummary \<Rightarrow> RecipientSummary \<Rightarrow> int" where
  "compareFirstApproval a b =
     (case (rs_firstApprovalAt a, rs_firstApprovalAt b) of
        (None, None) \<Rightarrow> 0
      | (None, Some tb) \<Rightarrow> 1
      | (Some ta, None) \<Rightarrow> - 1
      | (Some ta, Some tb) \<Rightarrow> tb - ta)"

text \<open>The candidate recipients of an operator: stored approvals first, then NFTs.\<close>

definition storedApprovalsOf :: "world \<Rightarrow> string \<Rightarrow> ERC20Approval list" where
  "storedApprovalsOf w operatorAddress =
     filter (\<lambda>a. ea_operatorAddress a = operatorAddress \<and> ea_isApproved a) (erc20Approvals w)"

definition nftsOf :: "world \<Rightarrow> string \<Rightarrow> NFT list" where
  "nftsOf w operatorAddress = filter (\<lambda>n. nft_investorAddress n = operatorAddress) (nfts w)"

definition uniqueRecipients :: "world \<Rightarrow> string \<Rightarrow> string list" where
  "uniqueRecipients w operatorAddress =
     (let approvalRecipients =
            newSet (map (\<lambda>a. toLowerCase (ea_walletAddress a)) (storedApprovalsOf w operatorAddress));
          nftRecipients =
            newSet (map (\<lambda>n. toLowerCase (nft_recipientAddress n)) (nftsOf w operatorAddress))
      in newSet (approvalRecipients @ nftRecipients))"

record connectedRecipientsData =
  cr_recipients :: "RecipientSummary list"
  cr_count :: nat
  cr_totalRecipients :: nat
  cr_lastUpdated :: int

text \<open>
  \<open>getConnectedRecipients\<close>, GET /api/approvals/connected-recipients. It only reads: the
  collections and the chain; \<open>contractAddress\<close> is \<open>process.env.CONTRACT_ADDRESS\<close>.
\<close>

definition getConnectedRecipients ::
  "chain \<Rightarrow> world \<Rightarrow> int \<Rightarrow> string option \<Rightarrow> string option \<Rightarrow> connectedRecipientsData response" where
  "getConnectedRecipients c w now contractAddress operator =
     (if \<not> truthy operator then Failure 400 ''Missing operator address'' []
      else if \<not> truthy contractAddress then Failure 500 ''Contract address not configured'' []
      else
        (let operatorAddress = toLowerCase (str operator);
             storedERC20Approvals = storedApprovalsOf w operatorAddress;
             nftRows = nftsOf w operatorAddress;
             recipients = uniqueRecipients w operatorAddress
         in case promiseAll
                   (map (recipientSummary c w operatorAddress (str contractAddress)
                           storedERC20Approvals nftRows) recipients) of
              Inl m \<Rightarrow> Failure 500 (orElse m ''Failed to get connected recipients'') []
            | Inr connectedRecipients \<Rightarrow>
                (let approvedRecipients =
                       sortWith compareFirstApproval (filter rs_hasAnyApproval connectedRecipients)
                 in Success \<lparr>cr_recipients = approvedRecipients,
                      cr_count = length approvedRecipients,
                      cr_totalRecipients = length recipients,
                      cr_lastUpdated = now\<rparr>)))"

section \<open>The dashboard in the words of the specification\<close>

text \<open>
  The definitions of this section are not translations of code: they state what the
  connected-recipients view is said to contain, for comparison with
  \<open>getConnectedRecipients\<close>.
\<close>

text \<open>The live allowance of a holder, zero when the read throws.\<close>

definition liveAllowance :: "chain \<Rightarrow> string \<Rightarrow> string \<Rightarrow> nat" where
  "liveAllowance c tokenContract holder =
     (case checkERC20Status_call c tokenContract holder of
        None \<Rightarrow> 0
      | Some (balance, allowance) \<Rightarrow> allowance)"

text \<open>
  The order of the list: first-approval timestamps descending, recipients without a
  timestamp last.
\<close>

definition firstApprovalBefore :: "RecipientSummary \<Rightarrow> RecipientSummary \<Rightarrow> bool" where
  "firstApprovalBefore a b =
     (case (rs_firstApprovalAt a, rs_firstApprovalAt b) of
        (None, None) \<Rightarrow> True
      | (None, Some tb) \<Rightarrow> False
      | (Some ta, None) \<Rightarrow> True
      | (Some ta, Some tb) \<Rightarrow> tb \<le> ta)"

text \<open>
  Every stored ERC-20 approval is a row as \<open>recordERC20Approval\<close>, the only writer of the
  collection, creates it: approved, and for a token of \<open>TOKEN_INFO\<close>.
\<close>

definition recordedByController :: "ERC20Approval list \<Rightarrow> bool" where
  "recordedByController rows =
     list_all (\<lambda>a. ea_isApproved a \<and> ea_tokenContract a \<in> set (map fst TOKEN_INFO)) rows"

text \<open>
  The candidates: the recipient addresses of all the ERC-20 approval rows for the
  operator, united with the recipient addresses of all the NFT rows issued by the
  operator.
\<close>

definition candidateRecipients :: "world \<Rightarrow> string \<Rightarrow> string set" where
  "candidateRecipients w operatorAddress =
     (\<lambda>a. toLowerCase (ea_walletAddress a)) `
        {a. a \<in> set (erc20Approvals w) \<and> ea_operatorAddress a = operatorAddress}
     \<union> (\<lambda>n. toLowerCase (nft_recipientAddress n)) `
        {n. n \<in> set (nfts w) \<and> nft_investorAddress n = operatorAddress}"

text \<open>The ERC-20 approval rows that one recipient granted to the operator.\<close>

definition approvalRowsFor :: "world \<Rightarrow> string \<Rightarrow> string \<Rightarrow> ERC20Approval list" where
  "approvalRowsFor w operatorAddress r =
     filter (\<lambda>a. ea_operatorAddress a = operatorAddress \<and> toLowerCase (ea_walletAddress a) = r)
       (erc20Approvals w)"

text \<open>
  \<open>hasAnyApproval\<close>: a stored approval record exists, or a live allowance is strictly
  positive, or the live NFT approval flag is true.
\<close>

definition hasAnyApprovalSpec :: "chain \<Rightarrow> world \<Rightarrow> string \<Rightarrow> string \<Rightarrow> string \<Rightarrow> bool" where
  "hasAnyApprovalSpec c w operatorAddress contractAddress r =
     (approvalRowsFor w operatorAddress r \<noteq> []
      \<or> 0 < liveAllowance c USDT_ADDRESS r \<or> 0 < liveAllowance c USDC_ADDRESS r
      \<or> isApprovedForAll c r contractAddress = Some True)"

text \<open>The first-approval timestamp: the earliest of the recipient's approval rows.\<close>

definition firstApprovalSpec :: "world \<Rightarrow> string \<Rightarrow> string \<Rightarrow> int option" where
  "firstApprovalSpec w operatorAddress r =
     (let ts = map ea_timestamp (approvalRowsFor w operatorAddress r)
      in if ts = [] then None else Some (Min (set ts)))"

text \<open>
  The rows the code keeps for one recipient (its \<open>recipientApprovals\<close>), and whether one of
  them is found for a given token.
\<close>

definition storedApprovalsFor :: "world \<Rightarrow> string \<Rightarrow> string \<Rightarrow> ERC20Approval list" where
  "storedApprovalsFor w operatorAddress r =
     filter (\<lambda>a. toLowerCase (ea_walletAddress a) = r) (storedApprovalsOf w operatorAddress)"


text \<open>The USDT or USDC read of one holder replaced by another answer.\<close>

definition withStatusRead :: "chain \<Rightarrow> string \<Rightarrow> string \<Rightarrow> (nat \<times> nat) option \<Rightarrow> chain" where
  "withStatusRead c tokenContract holder answer =
     c\<lparr>checkERC20Status_call := (\<lambda>t h. if t = tokenContract \<and> h = holder then answer
                                        else checkERC20Status_call c t h)\<rparr>"

text \<open>The list of a successful answer.\<close>

definition responseRecipients :: "connectedRecipientsData response \<Rightarrow> RecipientSummary list" where
  "responseRecipients res = (case res of Success d \<Rightarrow> cr_recipients d | Failure code m ds \<Rightarrow> [])"

section \<open>Event monitor (services/litProtocolService.ts)\<close>

text \<open>
  The four events the monitor listens to, each with the transaction hash and the block
  number of its log.
\<close>

datatype event =
    Transfer string string string string nat
  | ApprovalForAll string string bool string nat
  | TokenPulledBack string string string string nat
  | TokenMinted string string string string nat

text \<open>
  \<open>handleTransferEvent\<close> reads the document and, for a transfer to the recipient of a
  minted token, assigns \<open>'redeemed'\<close> to the \<open>status\<close> of the document in memory. The
  handler ends there: it never calls \<open>nft.save()\<close>, so the collection is what it was.
\<close>

definition handleTransferEvent :: "world \<Rightarrow> string \<Rightarrow> string \<Rightarrow> string \<Rightarrow> world" where
  "handleTransferEvent w from to tokenId =
     (case NFT_findOne (nfts w) tokenId of
        None \<Rightarrow> w
      | Some nft \<Rightarrow>
          (let doc = (if toLowerCase to = toLowerCase (nft_recipientAddress nft)
                         \<and> nft_status nft = Minted
                      then nft\<lparr>nft_status := Redeemed\<rparr> else nft)
           in w))"

text \<open>
  \<open>handleApprovalForAllEvent\<close>: the block of the log gives the timestamp (in seconds);
  a block that cannot be fetched, or a rejected write, is caught and logged.
\<close>

definition handleApprovalForAllEvent ::
  "chain \<Rightarrow> world \<Rightarrow> int \<Rightarrow> string \<Rightarrow> string \<Rightarrow> bool \<Rightarrow> string \<Rightarrow> nat \<Rightarrow> world" where
  "handleApprovalForAllEvent c w now owner operator approved txHash blockNumber =
     (let w1 = logCall (CallGetBlock blockNumber) w in
      case getBlock c blockNumber of
        None \<Rightarrow> w1
      | Some None \<Rightarrow> w1
      | Some (Some timestamp) \<Rightarrow>
          (case Approval_upsert (approvals w1)
                  \<lparr>ap_walletAddress = toLowerCase owner, ap_operatorAddress = toLowerCase operator,
                   ap_isApproved = approved, ap_txHash = txHash, ap_blockNumber = blockNumber,
                   ap_timestamp = timestamp * 1000, ap_recordedAt = now\<rparr> of
             Inl m \<Rightarrow> w1
           | Inr rows \<Rightarrow> w1\<lparr>approvals := rows\<rparr>))"

definition handleTokenPulledBackEvent :: "world \<Rightarrow> string \<Rightarrow> string \<Rightarrow> string \<Rightarrow> string \<Rightarrow> world" where
  "handleTokenPulledBackEvent w from operator tokenId txHash =
     w\<lparr>nfts := NFT_findOneAndUpdate (nfts w) tokenId
                 (\<lambda>n. n\<lparr>nft_status := Pulled, nft_pullTxHash := Some txHash\<rparr>)\<rparr>"

definition handleTokenMintedEvent :: "world \<Rightarrow> string \<Rightarrow> string \<Rightarrow> string \<Rightarrow> string \<Rightarrow> world" where
  "handleTokenMintedEvent w to tokenId tokenURI txHash =
     w\<lparr>nfts := NFT_findOneAndUpdate (nfts w) tokenId
                 (\<lambda>n. n\<lparr>nft_status := Minted, nft_mintTxHash := Some txHash\<rparr>)\<rparr>"

text \<open>The listeners registered by \<open>startMonitoring\<close>: one handler per event kind.\<close>

fun deliver :: "chain \<Rightarrow> int \<Rightarrow> world \<Rightarrow> event \<Rightarrow> world" where
  "deliver c now w (Transfer from to tokenId txHash blockNumber) =
     handleTransferEvent w from to tokenId"
| "deliver c now w (ApprovalForAll owner operator approved txHash blockNumber) =
     handleApprovalForAllEvent c w now owner operator approved txHash blockNumber"
| "deliver c now w (TokenPulledBack from operator tokenId txHash blockNumber) =
     handleTokenPulledBackEvent w from operator tokenId txHash"
| "deliver c now w (TokenMinted to tokenId tokenURI txHash blockNumber) =
     handleTokenMintedEvent w to tokenId tokenURI txHash"

text \<open>A run of the monitor over the events delivered to it, in order.\<close>

fun processEvents :: "chain \<Rightarrow> int \<Rightarrow> world \<Rightarrow> event list \<Rightarrow> world" where
  "processEvents c now w [] = w"
| "processEvents c now w (e # es) = processEvents c now (deliver c now w e) es"

text \<open>The persisted status of a token.\<close>

definition statusOf :: "world \<Rightarrow> string \<Rightarrow> nft_status option" where
  "statusOf w tokenId = map_option nft_status (NFT_findOne (nfts w) tokenId)"

text \<open>A \<open>TokenMinted\<close> event for the token \<open>t\<close>.\<close>

fun mintsToken :: "string \<Rightarrow> event \<Rightarrow> bool" where
  "mintsToken t (TokenMinted to tokenId tokenURI txHash blockNumber) = (tokenId = t)"
| "mintsToken t e = False"

section \<open>Example states\<close>

text \<open>
  Token 123 was minted to \<open>0xaaa\<close> by the operator \<open>0xbbb\<close>; the approval ledger holds a
  row that marks the owner as approved.
\<close>

definition nft123 :: NFT where
  "nft123 = \<lparr>nft_tokenId = ''123'', nft_recipientAddress = ''0xaaa'', nft_investorAddress = ''0xbbb'',
     nft_status = Minted, nft_mintTxHash = Some ''0x01'', nft_pullTxHash = None,
     nft_originalFilename = Some ''deed.pdf'', nft_createdAt = 1000\<rparr>"

definition ledgerApproved :: Approval where
  "ledgerApproved = \<lparr>ap_walletAddress = ''0xaaa'', ap_operatorAddress = ''0xbbb'', ap_isApproved = True,
     ap_txHash = ''0x111'', ap_blockNumber = 7, ap_timestamp = 2000, ap_recordedAt = 2000\<rparr>"

definition world123 :: world where
  "world123 = \<lparr>nfts = [nft123], approvals = [ledgerApproved], erc20Approvals = [],
     erc20Pullbacks = [], auditLogs = [], chainCalls = []\<rparr>"

text \<open>
  A chain on which the owner of every token is \<open>0xAAA\<close>: \<open>approved\<close> is its answer to
  \<open>isApprovedForAll\<close>, \<open>status\<close> the balance and the allowance of every holder.
\<close>

definition chainWith :: "bool \<Rightarrow> nat \<times> nat \<Rightarrow> chain" where
  "chainWith approved status = \<lparr>isApprovedForAll = (\<lambda>owner operator. Some approved),
     ownerOf = (\<lambda>tokenId. Some ''0xAAA''),
     pullBack = (\<lambda>from tokenId. Some ''0x03''),
     checkERC20Status_call = (\<lambda>tokenContract holder. Some status),
     pullBackERC20_call = (\<lambda>tokenContract from amount. Some ''0x04''),
     erc20Info = (\<lambda>tokenContract. Some (''Tether USD'', ''USDT'', 6)),
     getTransactionReceipt_call = (\<lambda>txHash. Some (Some 7)),
     waitForTransaction_call = (\<lambda>txHash. Some (Some 8)),
     getBlock = (\<lambda>blockNumber. Some (Some 1700000000))\<rparr>"

text \<open>The same chain with a token-information read that throws.\<close>

definition chainInfoDown :: "nat \<times> nat \<Rightarrow> chain" where
  "chainInfoDown status = (chainWith True status)\<lparr>erc20Info := (\<lambda>tokenContract. None)\<rparr>"

text \<open>The same state after token 123 was pulled back.\<close>

definition worldPulled :: world where
  "worldPulled = world123\<lparr>nfts := [nft123\<lparr>nft_status := Pulled, nft_pullTxHash := Some ''0x03''\<rparr>]\<rparr>"

text \<open>
  The row and the state after \<open>0xAAA\<close> has reported the transaction \<open>0x111\<close> that
  approves the operator \<open>0xBBB\<close> for USDT.
\<close>

definition usdtApproval :: ERC20Approval where
  "usdtApproval = \<lparr>ea_walletAddress = ''0xaaa'', ea_operatorAddress = ''0xbbb'',
     ea_tokenContract = ''0xbdead2a70fe794d2f97b37efde497e68974a296d'', ea_tokenSymbol = ''USDT'',
     ea_txHash = ''0x111'', ea_blockNumber = 7, ea_isApproved = True, ea_timestamp = 5000,
     ea_recordedAt = 5000\<rparr>"

definition worldRecorded :: world where
  "worldRecorded = world123\<lparr>erc20Approvals := [usdtApproval],
     auditLogs := [\<lparr>al_action = ''erc20_approval_recorded'', al_tokenId = None,
       al_walletAddress = ''0xaaa'', al_txHash = Some ''0x111'',
       al_metadata = [(''operatorAddress'', ''0xBBB''),
         (''tokenContract'', ''0xbDeaD2A70Fe794D2f97b37EFDE497e68974a296d''),
         (''tokenSymbol'', ''USDT''), (''txHash'', ''0x111'')],
       al_timestamp = 5000\<rparr>],
     chainCalls := [CallGetTransactionReceipt ''0x111'']\<rparr>"

text \<open>
  A dashboard state of the operator \<open>0xbbb\<close>: NFTs to \<open>0xaaa\<close>, \<open>0xccc\<close> and \<open>0xfff\<close>,
  stored approvals of \<open>0xaaa\<close> (USDT, at 5000) and \<open>0xeee\<close> (USDC, at 6000).
\<close>

definition nft124 :: NFT where
  "nft124 = \<lparr>nft_tokenId = ''124'', nft_recipientAddress = ''0xccc'', nft_investorAddress = ''0xbbb'',
     nft_status = Minted, nft_mintTxHash = Some ''0x09'', nft_pullTxHash = None,
     nft_originalFilename = None, nft_createdAt = 1500\<rparr>"

definition nft125 :: NFT where
  "nft125 = \<lparr>nft_tokenId = ''125'', nft_recipientAddress = ''0xfff'', nft_investorAddress = ''0xbbb'',
     nft_status = Uploaded, nft_mintTxHash = None, nft_pullTxHash = None,
     nft_originalFilename = Some ''lease.pdf'', nft_createdAt = 1600\<rparr>"

definition usdcApprovalLater :: ERC20Approval where
  "usdcApprovalLater = \<lparr>ea_walletAddress = ''0xeee'', ea_operatorAddress = ''0xbbb'',
     ea_tokenContract = ''0x94a9d9ac8a22534e3faca9f4e7f2e2cf85d5e4c8'', ea_tokenSymbol = ''USDC'',
     ea_txHash = ''0x222'', ea_blockNumber = 9, ea_isApproved = True, ea_timestamp = 6000,
     ea_recordedAt = 6000\<rparr>"

definition worldDashboard :: world where
  "worldDashboard = \<lparr>nfts = [nft123, nft124, nft125], approvals = [],
     erc20Approvals = [usdtApproval, usdcApprovalLater],
     erc20Pullbacks = [], auditLogs = [], chainCalls = []\<rparr>"

text \<open>
  A chain without NFT approvals on which every USDT read answers \<open>usdt\<close> and every USDC
  read \<open>usdc\<close>; then the same with an allowance of 7 USDT units for \<open>0xccc\<close> alone, and
  that one with a USDT read that throws for \<open>0xaaa\<close>.
\<close>

definition chainDashboard :: "(nat \<times> nat) option \<Rightarrow> (nat \<times> nat) option \<Rightarrow> chain" where
  "chainDashboard usdt usdc =
     (chainWith False (0, 0))\<lparr>checkERC20Status_call :=
        (\<lambda>tokenContract holder. if tokenContract = USDT_ADDRESS then usdt else usdc)\<rparr>"

definition chainOneAllowance :: chain where
  "chainOneAllowance =
     withStatusRead (chainDashboard (Some (100, 0)) (Some (100, 0)))
       USDT_ADDRESS ''0xccc'' (Some (100, 7))"


text \<open>
  The dashboard state with a second operator \<open>0x999\<close>, who issued token 777 to \<open>0x888\<close>
  and holds a stored USDT approval of \<open>0x777\<close>; on the chain \<open>0x888\<close> has a live USDC
  allowance of 3 units.
\<close>

definition nft777 :: NFT where
  "nft777 = \<lparr>nft_tokenId = ''777'', nft_recipientAddress = ''0x888'', nft_investorAddress = ''0x999'',
     nft_status = Minted, nft_mintTxHash = Some ''0x0a'', nft_pullTxHash = None,
     nft_originalFilename = None, nft_createdAt = 1700\<rparr>"

definition usdtApprovalElsewhere :: ERC20Approval where
  "usdtApprovalElsewhere = \<lparr>ea_walletAddress = ''0x777'', ea_operatorAddress = ''0x999'',
     ea_tokenContract = ''0xbdead2a70fe794d2f97b37efde497e68974a296d'', ea_tokenSymbol = ''USDT'',
     ea_txHash = ''0x333'', ea_blockNumber = 10, ea_isApproved = True, ea_timestamp = 6500,
     ea_recordedAt = 6500\<rparr>"

definition worldTwoOperators :: world where
  "worldTwoOperators = worldDashboard\<lparr>nfts := [nft123, nft777, nft124, nft125],
     erc20Approvals := [usdtApproval, usdtApprovalElsewhere, usdcApprovalLater]\<rparr>"

definition chainTwoOperators :: chain where
  "chainTwoOperators = withStatusRead chainOneAllowance USDC_ADDRESS ''0x888'' (Some (0, 3))"

section \<open>Lemmas on strings and BigInt\<close>

declare toString.simps [simp del]

lemma toLowerChar_idem: "toLowerChar (toLowerChar c) = toLowerChar c"
  by (auto simp: toLowerChar_def Let_def)

lemma toLowerCase_idem: "toLowerCase (toLowerCase s) = toLowerCase s"
  by (simp add: toLowerCase_def toLowerChar_idem)

lemma toLowerCase_nonempty: "toLowerCase s = [] \<longleftrightarrow> s = []"
  by (simp add: toLowerCase_def)

lemma digitsValue_snoc:
  "digitsValue b acc (xs @ [c]) =
     (case digitsValue b acc xs of
        None \<Rightarrow> None
      | Some v \<Rightarrow> (case digitValue c of None \<Rightarrow> None
                  | Some d \<Rightarrow> if d < b then Some (v * b + d) else None))"
  by (induction xs arbitrary: acc) (auto split: option.splits)

lemma digit_cases:
  "d < 10 \<Longrightarrow> d = 0 \<or> d = 1 \<or> d = 2 \<or> d = 3 \<or> d = 4 \<or> d = 5 \<or> d = 6 \<or> d = 7 \<or> d = 8 \<or> d = (9::nat)"
  by arith

lemma digitValue_digitChar: "d < 10 \<Longrightarrow> digitValue (digitChar d) = Some d"
  by (drule digit_cases) (auto simp: digitValue_def digitChar_def)

lemma digitChar_decimal: "d < 10 \<Longrightarrow> digitChar d \<in> set ''0123456789''"
  by (drule digit_cases) (auto simp: digitChar_def)

lemma toString_nonempty: "toString n \<noteq> []"
  by (subst toString.simps) simp

lemma toString_decimal: "set (toString n) \<subseteq> set ''0123456789''"
proof (induction n rule: toString.induct)
  case (1 n)
  show ?case
  proof (cases "n < 10")
    case True
    then show ?thesis using digitChar_decimal [of n] by (subst toString.simps) simp
  next
    case False
    have "n mod 10 < 10" by simp
    then have "digitChar (n mod 10) \<in> set ''0123456789''" by (rule digitChar_decimal)
    with False 1 show ?thesis by (subst toString.simps) simp
  qed
qed

lemma digitsValue_toString: "digitsValue 10 0 (toString n) = Some n"
proof (induction n rule: toString.induct)
  case (1 n)
  show ?case
  proof (cases "n < 10")
    case True
    then show ?thesis by (subst toString.simps) (simp add: digitValue_digitChar)
  next
    case False
    have m: "n mod 10 < 10" by simp
    from False 1 have ih: "digitsValue 10 0 (toString (n div 10)) = Some (n div 10)" by simp
    have "toString n = toString (n div 10) @ [digitChar (n mod 10)]"
      using False by (subst toString.simps) simp
    then show ?thesis
      by (simp add: digitsValue_snoc ih digitValue_digitChar [OF m])
  qed
qed

lemma trimString_id:
  assumes "s \<noteq> []" "\<not> isStrWhiteSpace (hd s)" "\<not> isStrWhiteSpace (last s)"
  shows "trimString s = s"
proof -
  from assms have a: "dropWhile isStrWhiteSpace s = s" by (cases s) auto
  from assms have "rev s \<noteq> []" "\<not> isStrWhiteSpace (hd (rev s))" by (auto simp: hd_rev)
  then have "dropWhile isStrWhiteSpace (rev s) = rev s" by (cases "rev s") auto
  with a show ?thesis by (simp add: trimString_def)
qed

lemma decimal_not_white: "c \<in> set ''0123456789'' \<Longrightarrow> \<not> isStrWhiteSpace c"
  by (auto simp: isStrWhiteSpace_def)

lemma BigInt_decimal:
  assumes ne: "s \<noteq> []" and ds: "set s \<subseteq> set ''0123456789''"
  shows "BigInt s = map_option int (digitsValue 10 0 s)"
proof -
  from ne ds have h: "hd s \<in> set ''0123456789''" and l: "last s \<in> set ''0123456789''"
    by (auto simp del: set_simps)
  have t: "trimString s = s"
    using ne h l by (intro trimString_id decimal_not_white)
  have p: "take 2 s \<noteq> [CHR ''0'', c]" if "c \<notin> set ''0123456789''" for c
  proof
    assume "take 2 s = [CHR ''0'', c]"
    then have "c \<in> set (take 2 s)" by simp
    then have "c \<in> set s" by (rule in_set_takeD)
    with ds that show False by blast
  qed
  have hs: "hd s \<noteq> CHR ''-''" "hd s \<noteq> CHR ''+''" using h by auto
  show ?thesis
    using ne hs p [of "CHR ''x''"] p [of "CHR ''X''"] p [of "CHR ''o''"] p [of "CHR ''O''"]
      p [of "CHR ''b''"] p [of "CHR ''B''"]
    by (simp add: BigInt_def t Let_def parseDigits_def)
qed

text \<open>The string of a chain amount converts back to the amount.\<close>

lemma BigInt_toString: "BigInt (toString n) = Some (int n)"
  using BigInt_decimal [OF toString_nonempty toString_decimal, of n]
  by (simp add: digitsValue_toString)

lemma bigIntLess_toString:
  "BigInt s = Some a \<Longrightarrow> bigIntLess (toString n) s = Inr (int n < a)"
  by (simp add: bigIntLess_def BigInt_toString)

lemma bigIntPositive_toString: "bigIntPositive (toString n) = Inr (0 < n)"
  by (simp add: bigIntPositive_def BigInt_toString)

lemmas BigInt_eval =
  BigInt_def trimString_def isStrWhiteSpace_def parseDigits_def digitValue_def

lemma lower_0xAAA: "toLowerCase ''0xAAA'' = ''0xaaa''" by code_simp
lemma lower_0xBBB: "toLowerCase ''0xBBB'' = ''0xbbb''" by code_simp
lemma lower_0xaaa: "toLowerCase ''0xaaa'' = ''0xaaa''" by code_simp
lemma lower_0xbbb: "toLowerCase ''0xbbb'' = ''0xbbb''" by code_simp

lemma lower_USDT: "toLowerCase USDT_ADDRESS = ''0xbdead2a70fe794d2f97b37efde497e68974a296d''"
  by code_simp

lemma lower_USDC: "toLowerCase USDC_ADDRESS = ''0x94a9d9ac8a22534e3faca9f4e7f2e2cf85d5e4c8''"
  by code_simp

lemma lower_USDT_literal:
  "toLowerCase ''0xbDeaD2A70Fe794D2f97b37EFDE497e68974a296d'' =
     ''0xbdead2a70fe794d2f97b37efde497e68974a296d''"
  using lower_USDT by (simp add: USDT_ADDRESS_def)

lemma TOKEN_INFO_get_USDT:
  "TOKEN_INFO_get ''0xbdead2a70fe794d2f97b37efde497e68974a296d'' = Some (OwnEntry ''USDT'' ''Tether USD'')"
  by (simp add: TOKEN_INFO_get_def TOKEN_INFO_def lower_USDT)

text \<open>The audit log is a collection of its own.\<close>

lemma erc20Approvals_createAuditLog [simp]:
  "erc20Approvals (createAuditLog w now action walletAddress metadata tokenId txHash) = erc20Approvals w"
  by (simp add: createAuditLog_def)

lemma chainCalls_createAuditLog [simp]:
  "chainCalls (createAuditLog w now action walletAddress metadata tokenId txHash) = chainCalls w"
  by (simp add: createAuditLog_def)

section \<open>Lemmas on the connected-recipients view\<close>

lemma set_setAddAll: "set (setAddAll seen xs) = set seen \<union> set xs"
  by (induction xs arbitrary: seen) auto

lemma distinct_setAddAll: "distinct seen \<Longrightarrow> distinct (setAddAll seen xs)"
  by (induction xs arbitrary: seen) auto

lemma set_newSet: "set (newSet xs) = set xs"
  by (simp add: newSet_def set_setAddAll)

lemma distinct_newSet: "distinct (newSet xs)"
  by (simp add: newSet_def distinct_setAddAll)

lemma set_insertSorted: "set (insertSorted cmp x ys) = insert x (set ys)"
  by (induction ys) auto

lemma set_sortWith: "set (sortWith cmp xs) = set xs"
  by (induction xs) (auto simp: sortWith_def set_insertSorted)

lemma length_insertSorted: "length (insertSorted cmp x ys) = Suc (length ys)"
  by (induction ys) auto

lemma length_sortWith: "length (sortWith cmp xs) = length xs"
  by (induction xs) (auto simp: sortWith_def length_insertSorted)

lemma distinct_map_insertSorted:
  "distinct (map f (insertSorted cmp x ys)) \<longleftrightarrow> f x \<notin> f ` set ys \<and> distinct (map f ys)"
  by (induction ys) (auto simp: set_insertSorted)

lemma distinct_map_sortWith: "distinct (map f (sortWith cmp xs)) \<longleftrightarrow> distinct (map f xs)"
proof (induction xs)
  case Nil
  then show ?case by (simp add: sortWith_def)
next
  case (Cons x xs)
  have "sortWith cmp (x # xs) = insertSorted cmp x (sortWith cmp xs)" by (simp add: sortWith_def)
  then show ?case using Cons by (simp add: distinct_map_insertSorted set_sortWith)
qed

lemma sorted_insertSorted:
  assumes total: "\<And>a b. cmp a b \<le> 0 \<or> cmp b a \<le> 0"
    and trans: "\<And>a b c. cmp a b \<le> 0 \<Longrightarrow> cmp b c \<le> 0 \<Longrightarrow> cmp a c \<le> 0"
  shows "sorted_wrt (\<lambda>a b. cmp a b \<le> 0) ys \<Longrightarrow>
         sorted_wrt (\<lambda>a b. cmp a b \<le> 0) (insertSorted cmp x ys)"
proof (induction ys)
  case Nil
  then show ?case by simp
next
  case (Cons y ys)
  show ?case
  proof (cases "cmp x y \<le> 0")
    case True
    have "\<forall>z \<in> set ys. cmp x z \<le> 0"
      using Cons.prems True trans by auto
    with True Cons.prems show ?thesis by simp
  next
    case False
    then have yx: "cmp y x \<le> 0" using total [of x y] by simp
    from Cons have "sorted_wrt (\<lambda>a b. cmp a b \<le> 0) (insertSorted cmp x ys)" by simp
    with False yx Cons.prems show ?thesis by (auto simp: set_insertSorted)
  qed
qed

lemma sorted_sortWith:
  assumes total: "\<And>a b. cmp a b \<le> 0 \<or> cmp b a \<le> 0"
    and trans: "\<And>a b c. cmp a b \<le> 0 \<Longrightarrow> cmp b c \<le> 0 \<Longrightarrow> cmp a c \<le> 0"
  shows "sorted_wrt (\<lambda>a b. cmp a b \<le> 0) (sortWith cmp xs)"
proof (induction xs)
  case Nil
  then show ?case by (simp add: sortWith_def)
next
  case (Cons x xs)
  have "sortWith cmp (x # xs) = insertSorted cmp x (sortWith cmp xs)" by (simp add: sortWith_def)
  then show ?case using sorted_insertSorted [of cmp, OF total trans] Cons by simp
qed

lemma compareFirstApproval_le: "compareFirstApproval a b \<le> 0 \<longleftrightarrow> firstApprovalBefore a b"
  by (simp add: compareFirstApproval_def firstApprovalBefore_def split: option.splits)

lemma firstApprovalBefore_total: "firstApprovalBefore a b \<or> firstApprovalBefore b a"
  by (auto simp: firstApprovalBefore_def split: option.splits)

lemma firstApprovalBefore_trans:
  "firstApprovalBefore a b \<Longrightarrow> firstApprovalBefore b c \<Longrightarrow> firstApprovalBefore a c"
  by (auto simp: firstApprovalBefore_def split: option.splits)

lemma sorted_by_firstApproval: "sorted_wrt firstApprovalBefore (sortWith compareFirstApproval xs)"
proof -
  have "sorted_wrt (\<lambda>a b. compareFirstApproval a b \<le> 0) (sortWith compareFirstApproval xs)"
    using firstApprovalBefore_total firstApprovalBefore_trans
    by (intro sorted_sortWith) (auto simp: compareFirstApproval_le)
  then show ?thesis by (simp add: compareFirstApproval_le)
qed

lemma bigIntPositive_zero: "bigIntPositive ''0'' = Inr False"
  by (simp add: bigIntPositive_def BigInt_eval)

lemma liveERC20Status_eq:
  "liveERC20Status c w tokenContract r =
     (case checkERC20Status_call c tokenContract r of
        None \<Rightarrow> (''0'', ''0'')
      | Some (balance, allowance) \<Rightarrow> (toString balance, toString allowance))"
  by (simp add: liveERC20Status_def bs_checkERC20Status_def split: option.splits)

lemma bigIntPositive_live:
  "bigIntPositive (snd (liveERC20Status c w tokenContract r)) = Inr (0 < liveAllowance c tokenContract r)"
  by (simp add: liveERC20Status_eq liveAllowance_def bigIntPositive_zero bigIntPositive_toString
      split: option.splits)

lemma liveNFTApproval_eq:
  "liveNFTApproval c w r contractAddress = (isApprovedForAll c r contractAddress = Some True)"
  by (auto simp: liveNFTApproval_def bs_checkApproval_def split: option.splits)

lemma recipientSummary_Inr:
  "\<exists>s. recipientSummary c w operatorAddress contractAddress stored nftRows r = Inr s
     \<and> rs_walletAddress s = r
     \<and> rs_usdtBalance s = fst (liveERC20Status c w USDT_ADDRESS r)
     \<and> ta_allowance (rs_usdt s) = snd (liveERC20Status c w USDT_ADDRESS r)
     \<and> rs_usdcBalance s = fst (liveERC20Status c w USDC_ADDRESS r)
     \<and> ta_allowance (rs_usdc s) = snd (liveERC20Status c w USDC_ADDRESS r)
     \<and> rs_nftApproved s = liveNFTApproval c w r contractAddress
     \<and> rs_firstApprovalAt s =
         (case map ea_timestamp (filter (\<lambda>a. toLowerCase (ea_walletAddress a) = r) stored) of
            [] \<Rightarrow> None | t # ts \<Rightarrow> Some (minOf t ts))
     \<and> rs_hasAnyApproval s =
         (find (\<lambda>a. toLowerCase (ea_tokenContract a) = toLowerCase USDT_ADDRESS)
            (filter (\<lambda>a. toLowerCase (ea_walletAddress a) = r) stored) \<noteq> None
          \<or> find (\<lambda>a. toLowerCase (ea_tokenContract a) = toLowerCase USDC_ADDRESS)
            (filter (\<lambda>a. toLowerCase (ea_walletAddress a) = r) stored) \<noteq> None
          \<or> 0 < liveAllowance c USDT_ADDRESS r \<or> 0 < liveAllowance c USDC_ADDRESS r
          \<or> liveNFTApproval c w r contractAddress)"
  by (auto simp: recipientSummary_def Let_def case_prod_beta bigIntPositive_live)

lemma promiseAll_map_Inr: "promiseAll (map Inr xs) = Inr xs"
  by (induction xs) auto

lemma minOf_fold: "minOf m ts = fold min ts m"
  by (induction ts arbitrary: m) (auto simp: min.commute)

lemma minOf_Min: "minOf t ts = Min (set (t # ts))"
  by (simp only: minOf_fold Min.set_eq_fold)

lemma recipientSummary_projr:
  "recipientSummary c w operatorAddress contractAddress stored nftRows r =
     Inr (projr (recipientSummary c w operatorAddress contractAddress stored nftRows r))"
  using recipientSummary_Inr [of c w operatorAddress contractAddress stored nftRows r] by auto

lemma storedApprovalsOf_rows:
  assumes inv: "recordedByController (erc20Approvals w)"
  shows "storedApprovalsOf w operatorAddress =
           filter (\<lambda>a. ea_operatorAddress a = operatorAddress) (erc20Approvals w)"
  unfolding storedApprovalsOf_def
  using inv by (intro filter_cong) (auto simp: recordedByController_def list_all_iff)

lemma storedApprovalsFor_rows:
  assumes inv: "recordedByController (erc20Approvals w)"
  shows "storedApprovalsFor w operatorAddress r = approvalRowsFor w operatorAddress r"
  unfolding storedApprovalsFor_def approvalRowsFor_def storedApprovalsOf_rows [OF inv]
  by (auto intro: filter_cong)

lemma set_uniqueRecipients:
  assumes inv: "recordedByController (erc20Approvals w)"
  shows "set (uniqueRecipients w operatorAddress) = candidateRecipients w operatorAddress"
  by (auto simp: uniqueRecipients_def candidateRecipients_def set_newSet Let_def
      storedApprovalsOf_rows [OF inv] nftsOf_def)

lemma distinct_uniqueRecipients: "distinct (uniqueRecipients w operatorAddress)"
  by (simp add: uniqueRecipients_def distinct_newSet Let_def)

lemma stored_token_found:
  assumes inv: "recordedByController (erc20Approvals w)"
  shows "(find (\<lambda>a. toLowerCase (ea_tokenContract a) = toLowerCase USDT_ADDRESS)
            (storedApprovalsFor w operatorAddress r) \<noteq> None
          \<or> find (\<lambda>a. toLowerCase (ea_tokenContract a) = toLowerCase USDC_ADDRESS)
            (storedApprovalsFor w operatorAddress r) \<noteq> None)
         \<longleftrightarrow> storedApprovalsFor w operatorAddress r \<noteq> []"
proof
  assume "find (\<lambda>a. toLowerCase (ea_tokenContract a) = toLowerCase USDT_ADDRESS)
            (storedApprovalsFor w operatorAddress r) \<noteq> None
          \<or> find (\<lambda>a. toLowerCase (ea_tokenContract a) = toLowerCase USDC_ADDRESS)
            (storedApprovalsFor w operatorAddress r) \<noteq> None"
  then show "storedApprovalsFor w operatorAddress r \<noteq> []" by auto
next
  assume ne: "storedApprovalsFor w operatorAddress r \<noteq> []"
  then obtain a where a: "a \<in> set (storedApprovalsFor w operatorAddress r)"
    by (cases "storedApprovalsFor w operatorAddress r") auto
  then have "a \<in> set (erc20Approvals w)"
    by (auto simp: storedApprovalsFor_def storedApprovalsOf_def)
  with inv have "ea_tokenContract a = toLowerCase USDT_ADDRESS
      \<or> ea_tokenContract a = toLowerCase USDC_ADDRESS"
    by (auto simp: recordedByController_def list_all_iff TOKEN_INFO_def)
  then have "toLowerCase (ea_tokenContract a) = toLowerCase USDT_ADDRESS
      \<or> toLowerCase (ea_tokenContract a) = toLowerCase USDC_ADDRESS"
    by (auto simp: toLowerCase_idem)
  with a show "find (\<lambda>a. toLowerCase (ea_tokenContract a) = toLowerCase USDT_ADDRESS)
            (storedApprovalsFor w operatorAddress r) \<noteq> None
          \<or> find (\<lambda>a. toLowerCase (ea_tokenContract a) = toLowerCase USDC_ADDRESS)
            (storedApprovalsFor w operatorAddress r) \<noteq> None"
    by (auto simp: find_None_iff)
qed

lemma getConnectedRecipients_Success:
  assumes "truthy operator" "truthy contractAddress"
  shows "getConnectedRecipients c w now contractAddress operator =
     Success \<lparr>cr_recipients =
         sortWith compareFirstApproval (filter rs_hasAnyApproval
           (map (\<lambda>r. projr (recipientSummary c w (toLowerCase (str operator)) (str contractAddress)
                    (storedApprovalsOf w (toLowerCase (str operator)))
                    (nftsOf w (toLowerCase (str operator))) r))
              (uniqueRecipients w (toLowerCase (str operator))))),
       cr_count = length (filter rs_hasAnyApproval
           (map (\<lambda>r. projr (recipientSummary c w (toLowerCase (str operator)) (str contractAddress)
                    (storedApprovalsOf w (toLowerCase (str operator)))
                    (nftsOf w (toLowerCase (str operator))) r))
              (uniqueRecipients w (toLowerCase (str operator))))),
       cr_totalRecipients = length (uniqueRecipients w (toLowerCase (str operator))),
       cr_lastUpdated = now\<rparr>"
proof -
  let ?f = "recipientSummary c w (toLowerCase (str operator)) (str contractAddress)
              (storedApprovalsOf w (toLowerCase (str operator)))
              (nftsOf w (toLowerCase (str operator)))"
  have "map ?f (uniqueRecipients w (toLowerCase (str operator))) =
        map Inr (map (\<lambda>r. projr (?f r)) (uniqueRecipients w (toLowerCase (str operator))))"
    using recipientSummary_projr by (simp add: comp_def)
  then show ?thesis
    using assms
    by (simp add: getConnectedRecipients_def Let_def promiseAll_map_Inr length_sortWith
        del: map_map)
qed


lemma recordedByController_recordERC20Approval:
  assumes "recordedByController (erc20Approvals w)"
  shows "recordedByController (erc20Approvals (snd (recordERC20Approval c w now walletAddress
           operatorAddress tokenContract txHash)))"
proof -
  have own: "TOKEN_INFO_get key = Some tokenInfo \<Longrightarrow> entrySymbol tokenInfo \<noteq> [] \<Longrightarrow>
      key \<in> set (map fst TOKEN_INFO)" for key tokenInfo
    by (cases tokenInfo) (auto simp: TOKEN_INFO_get_def TOKEN_INFO_def split: if_splits)
  show ?thesis
    using assms
    by (auto simp: recordERC20Approval_def Let_def bs_getTransactionReceipt_def logCall_def
        ERC20Approval_create_def recordedByController_def
        split: option.splits sum.splits if_splits dest: own)
qed

lemma lower_0xccc: "toLowerCase ''0xccc'' = ''0xccc''" by code_simp
lemma lower_usdt_lower:
  "toLowerCase ''0xbdead2a70fe794d2f97b37efde497e68974a296d'' =
     ''0xbdead2a70fe794d2f97b37efde497e68974a296d''" by code_simp

lemma lower_0xeee: "toLowerCase ''0xeee'' = ''0xeee''" by code_simp
lemma lower_0xfff: "toLowerCase ''0xfff'' = ''0xfff''" by code_simp
lemma lower_usdc_lower:
  "toLowerCase ''0x94a9d9ac8a22534e3faca9f4e7f2e2cf85d5e4c8'' =
     ''0x94a9d9ac8a22534e3faca9f4e7f2e2cf85d5e4c8''" by code_simp

lemma token_addresses_differ: "USDC_ADDRESS \<noteq> USDT_ADDRESS"
  by (simp add: USDC_ADDRESS_def USDT_ADDRESS_def)

lemma toString_examples:
  "toString 0 = ''0''" "toString 7 = ''7''" "toString 100 = ''100''"
  by (simp_all add: toString.simps digitChar_def)

lemma bigIntPositive_examples:
  "bigIntPositive ''0'' = Inr False" "bigIntPositive ''7'' = Inr True"
  by (simp_all add: bigIntPositive_def BigInt_eval)

lemmas dashboard_eval =
  getConnectedRecipients_def uniqueRecipients_def storedApprovalsOf_def nftsOf_def newSet_def
  recipientSummary_def liveERC20Status_def liveNFTApproval_def bs_checkERC20Status_def
  bs_checkApproval_def logCall_def findPullbackHistory_def sortWith_def
  compareFirstApproval_def chainDashboard_def chainWith_def withStatusRead_def
  truthy_def str_def orElse_def Let_def responseRecipients_def
  world123_def worldDashboard_def nft123_def nft124_def nft125_def usdtApproval_def
  usdcApprovalLater_def lower_0xeee lower_0xfff lower_usdc_lower
  lower_0xAAA lower_0xBBB lower_0xaaa lower_0xbbb lower_0xccc lower_USDT lower_USDC
  lower_usdt_lower token_addresses_differ toString_examples bigIntPositive_examples

lemma lower_0x777: "toLowerCase ''0x777'' = ''0x777''" by code_simp
lemma lower_0x888: "toLowerCase ''0x888'' = ''0x888''" by code_simp

lemma recordedByController_worldTwoOperators:
  "recordedByController (erc20Approvals worldTwoOperators)"
  by (simp add: recordedByController_def worldTwoOperators_def TOKEN_INFO_def usdtApproval_def
      usdcApprovalLater_def usdtApprovalElsewhere_def lower_USDT lower_USDC)


text \<open>
  No other operation writes the ERC-20 approval collection: the pull-back controllers, the
  NFT approval controller and the event handlers leave it as it is. Together with
  \<open>recordedByController_recordERC20Approval\<close>, a collection that starts empty holds
  only rows recorded by the controller.
\<close>

lemma recordedByController_empty: "recordedByController []"
  by (simp add: recordedByController_def)

lemma erc20Approvals_pullBackERC20_catch:
  "erc20Approvals (snd (pullBackERC20_catch c w now tokenContract fromAddress amount
      operatorAddress message)) = erc20Approvals w"
  by (simp add: pullBackERC20_catch_def bs_getERC20TokenInfo_def logCall_def
      split: option.splits sum.splits prod.splits)

lemma erc20Approvals_pullBackERC20:
  "erc20Approvals (snd (pullBackERC20 c w now tokenContract fromAddress amount operatorAddress)) =
     erc20Approvals w"
  by (auto simp: pullBackERC20_def erc20Approvals_pullBackERC20_catch bs_getERC20TokenInfo_def
      bs_checkERC20Status_def bs_pullBackERC20_def bs_waitForTransaction_def logCall_def Let_def
      split: option.splits sum.splits prod.splits bool.splits)

lemma erc20Approvals_pullToken:
  "erc20Approvals (snd (pullToken c walletAddress w now tokenId operatorAddress)) =
     erc20Approvals w"
  by (simp add: pullToken_def bs_getTokenOwner_def bs_checkApproval_def bs_pullToken_def
      logCall_def Let_def split: option.splits sum.splits prod.splits bool.splits)

lemma erc20Approvals_recordApproval:
  "erc20Approvals (snd (recordApproval c w now walletAddress operatorAddress txHash)) =
     erc20Approvals w"
  by (simp add: recordApproval_def bs_getTransactionReceipt_def bs_checkApproval_def
      logCall_def Let_def split: option.splits sum.splits prod.splits bool.splits)

lemma erc20Approvals_deliver: "erc20Approvals (deliver c now w e) = erc20Approvals w"
  by (cases e)
    (simp_all add: handleTransferEvent_def handleApprovalForAllEvent_def
      handleTokenPulledBackEvent_def handleTokenMintedEvent_def logCall_def Let_def
      split: option.splits sum.splits)

lemma erc20Approvals_processEvents:
  "erc20Approvals (processEvents c now w es) = erc20Approvals w"
  by (induction es arbitrary: w) (simp_all add: erc20Approvals_deliver)

section \<open>The pull-back authorizer\<close>

text \<open>
  C1. A call \<open>pullToken(tokenId, operatorAddress)\<close> on a record in status \<open>minted\<close>
  reads the owner and then \<open>isApprovedForAll(currentOwner, operatorAddress)\<close> from the
  chain. When that read returns false the answer is the 403 \<open>Operator not approved by
  token owner\<close>, and the state after the call is the state before it with the two reads
  added to the log of chain calls: no transaction is submitted, the NFT row keeps its
  status, nothing is written to the pull-back history or the audit log. This holds
  whatever the approval ledgers (\<open>ledger\<close>, \<open>erc20Ledger\<close>) contain.
\<close>

theorem pullToken_live_check_precedence:
  assumes op: "truthy operatorAddress"
    and nft: "NFT_findOne (nfts w) tokenId = Some nft" and st: "nft_status nft = Minted"
    and own: "ownerOf c tokenId = Some currentOwner"
    and live: "isApprovedForAll c currentOwner (str operatorAddress) = Some False"
  shows "pullToken c walletAddress (w\<lparr>approvals := ledger, erc20Approvals := erc20Ledger\<rparr>)
           now tokenId operatorAddress =
         (Failure 403 ''Operator not approved by token owner''
            [(''currentOwner'', currentOwner), (''operatorAddress'', str operatorAddress)],
          w\<lparr>approvals := ledger, erc20Approvals := erc20Ledger,
            chainCalls := chainCalls w @
              [CallOwnerOf tokenId, CallIsApprovedForAll currentOwner (str operatorAddress)]\<rparr>)"
  using assms
  by (simp add: pullToken_def bs_getTokenOwner_def bs_checkApproval_def logCall_def)

theorem pullToken_live_check_precedence_witness:
  "pullToken (chainWith False (0, 0)) ''0xBBB''
       (world123\<lparr>approvals := [ledgerApproved], erc20Approvals := []\<rparr>)
       5000 ''123'' (Some ''0xBBB'') =
     (Failure 403 ''Operator not approved by token owner''
        [(''currentOwner'', ''0xAAA''), (''operatorAddress'', ''0xBBB'')],
      world123\<lparr>approvals := [ledgerApproved], erc20Approvals := [],
        chainCalls := [CallOwnerOf ''123'', CallIsApprovedForAll ''0xAAA'' ''0xBBB'']\<rparr>)
   \<and> statusOf world123 ''123'' = Some Minted"
  using pullToken_live_check_precedence [where operatorAddress = "Some ''0xBBB''"
      and w = world123 and tokenId = "''123''" and nft = nft123 and c = "chainWith False (0, 0)"
      and currentOwner = "''0xAAA''" and walletAddress = "''0xBBB''" and ledger = "[ledgerApproved]"
      and ?erc20Ledger = "[]" and now = 5000]
  by (simp add: truthy_def str_def world123_def nft123_def NFT_findOne_def chainWith_def
      statusOf_def)

lemma pullBackERC20_insufficient_allowance:
  assumes "truthy tokenContract" "truthy fromAddress" "truthy amount" "truthy operatorAddress"
    and "erc20Info c (str tokenContract) = Some tokenInfo"
    and "checkERC20Status_call c (str tokenContract) (str fromAddress) = Some (balance, allowance)"
    and amt: "BigInt (str amount) = Some a" and "int allowance < a"
  shows "pullBackERC20 c w now tokenContract fromAddress amount operatorAddress =
              (Failure 400 ''Insufficient token allowance''
                 [(''required'', str amount), (''current'', toString allowance)],
               w\<lparr>chainCalls := chainCalls w @
                  [CallERC20Info (str tokenContract),
                   CallCheckERC20Status (str tokenContract) (str fromAddress)]\<rparr>)"
  using assms
  by (simp add: pullBackERC20_def bs_getERC20TokenInfo_def bs_checkERC20Status_def logCall_def
      bigIntLess_toString [OF amt])

lemma pullBackERC20_insufficient_balance:
  assumes "truthy tokenContract" "truthy fromAddress" "truthy amount" "truthy operatorAddress"
    and "erc20Info c (str tokenContract) = Some tokenInfo"
    and "checkERC20Status_call c (str tokenContract) (str fromAddress) = Some (balance, allowance)"
    and amt: "BigInt (str amount) = Some a" and "\<not> int allowance < a" "int balance < a"
  shows "pullBackERC20 c w now tokenContract fromAddress amount operatorAddress =
              (Failure 400 ''Insufficient token balance''
                 [(''required'', str amount), (''current'', toString balance)],
               w\<lparr>chainCalls := chainCalls w @
                  [CallERC20Info (str tokenContract),
                   CallCheckERC20Status (str tokenContract) (str fromAddress)]\<rparr>)"
  using assms
  by (simp add: pullBackERC20_def bs_getERC20TokenInfo_def bs_checkERC20Status_def logCall_def
      bigIntLess_toString [OF amt])

lemma fst_pullBackERC20_catch:
  "fst (pullBackERC20_catch c w now tokenContract fromAddress amount operatorAddress m) =
     Failure 500 (orElse m ''Failed to pull back ERC-20 tokens'') []"
  by (simp add: pullBackERC20_catch_def)

lemma pullBackERC20_info_down:
  assumes "truthy tokenContract" "truthy fromAddress" "truthy amount" "truthy operatorAddress"
    and "erc20Info c (str tokenContract) = None"
  shows "pullBackERC20 c w now tokenContract fromAddress amount operatorAddress =
           (Failure 500 ''Failed to get token information'' [],
            w\<lparr>chainCalls := chainCalls w @
               [CallERC20Info (str tokenContract), CallERC20Info (str tokenContract)]\<rparr>)"
  using assms
  by (simp add: pullBackERC20_def pullBackERC20_catch_def bs_getERC20TokenInfo_def logCall_def
      orElse_def)

text \<open>
  C2, as the code has it. A call \<open>pullBackERC20\<close> with all four fields present reads the
  token information first and then the live balance and allowance. When the
  token-information read throws, the call answers the 500 of that error, whatever the
  allowance is. When it succeeds: with an allowance below the amount the call answers
  \<open>Insufficient token allowance\<close>, otherwise with a balance below the amount
  \<open>Insufficient token balance\<close>. In all three cases the state after the call is the
  state before it with two reads added to the log of chain calls: no transaction is
  submitted.
\<close>

theorem pullBackERC20_amount_preconditions:
  assumes fields: "truthy tokenContract" "truthy fromAddress" "truthy amount" "truthy operatorAddress"
    and live: "checkERC20Status_call c (str tokenContract) (str fromAddress) = Some (balance, allowance)"
    and amt: "BigInt (str amount) = Some a"
    and low: "int allowance < a \<or> int balance < a"
  shows "pullBackERC20 c w now tokenContract fromAddress amount operatorAddress =
           (case erc20Info c (str tokenContract) of
              None \<Rightarrow>
                (Failure 500 ''Failed to get token information'' [],
                 w\<lparr>chainCalls := chainCalls w @
                    [CallERC20Info (str tokenContract), CallERC20Info (str tokenContract)]\<rparr>)
            | Some tokenInfo \<Rightarrow>
                (Failure 400
                   (if int allowance < a then ''Insufficient token allowance''
                    else ''Insufficient token balance'')
                   [(''required'', str amount),
                    (''current'', if int allowance < a then toString allowance else toString balance)],
                 w\<lparr>chainCalls := chainCalls w @
                    [CallERC20Info (str tokenContract),
                     CallCheckERC20Status (str tokenContract) (str fromAddress)]\<rparr>))
       \<and> filter isWriteCall (chainCalls (snd (pullBackERC20 c w now tokenContract fromAddress
            amount operatorAddress))) = filter isWriteCall (chainCalls w)"
proof (cases "erc20Info c (str tokenContract)")
  case None
  show ?thesis
    by (simp add: pullBackERC20_info_down [OF fields None] None)
next
  case (Some tokenInfo)
  show ?thesis
  proof (cases "int allowance < a")
    case True
    show ?thesis
      by (simp add: pullBackERC20_insufficient_allowance [OF fields Some live amt True] True Some)
  next
    case False
    with low have b: "int balance < a" by simp
    show ?thesis
      by (simp add: pullBackERC20_insufficient_balance [OF fields Some live amt False b] False Some)
  qed
qed

theorem pullBackERC20_amount_preconditions_witness:
  "pullBackERC20 (chainWith True (100, 5)) world123 5000
       (Some ''0xbdead'') (Some ''0xaaa'') (Some ''10'') (Some ''0xbbb'') =
     (Failure 400 ''Insufficient token allowance'' [(''required'', ''10''), (''current'', ''5'')],
      world123\<lparr>chainCalls := [CallERC20Info ''0xbdead'', CallCheckERC20Status ''0xbdead'' ''0xaaa'']\<rparr>)
   \<and> pullBackERC20 (chainWith True (5, 100)) world123 5000
       (Some ''0xbdead'') (Some ''0xaaa'') (Some ''10'') (Some ''0xbbb'') =
     (Failure 400 ''Insufficient token balance'' [(''required'', ''10''), (''current'', ''5'')],
      world123\<lparr>chainCalls := [CallERC20Info ''0xbdead'', CallCheckERC20Status ''0xbdead'' ''0xaaa'']\<rparr>)"
proof -
  have amt: "BigInt (str (Some ''10'')) = Some 10"
    by (simp add: str_def BigInt_eval)
  have t5: "toString 5 = ''5''"
    by (simp add: toString.simps digitChar_def)
  show ?thesis
    using pullBackERC20_amount_preconditions [where c = "chainWith True (100, 5)" and w = world123
        and tokenContract = "Some ''0xbdead''" and fromAddress = "Some ''0xaaa''"
        and amount = "Some ''10''" and operatorAddress = "Some ''0xbbb''" and now = 5000
        and balance = 100 and allowance = 5 and a = 10, OF _ _ _ _ _ amt]
      pullBackERC20_amount_preconditions [where c = "chainWith True (5, 100)" and w = world123
        and tokenContract = "Some ''0xbdead''" and fromAddress = "Some ''0xaaa''"
        and amount = "Some ''10''" and operatorAddress = "Some ''0xbbb''" and now = 5000
        and balance = 5 and allowance = 100 and a = 10, OF _ _ _ _ _ amt]
    by (simp add: truthy_def str_def chainWith_def world123_def t5)
qed

text \<open>
  C2 as stated fails: all four fields are present and the live allowance 5 is below the
  amount 10, but the token-information read throws, and the answer is the 500 of that
  error, not \<open>Insufficient token allowance\<close>.
\<close>

theorem pullBackERC20_token_info_down:
  "checkERC20Status_call (chainInfoDown (100, 5)) ''0xbdead'' ''0xaaa'' = Some (100, 5)
   \<and> pullBackERC20 (chainInfoDown (100, 5)) world123 5000
       (Some ''0xbdead'') (Some ''0xaaa'') (Some ''10'') (Some ''0xbbb'') =
     (Failure 500 ''Failed to get token information'' [],
      world123\<lparr>chainCalls := [CallERC20Info ''0xbdead'', CallERC20Info ''0xbdead'']\<rparr>)"
  by (simp add: pullBackERC20_def pullBackERC20_catch_def bs_getERC20TokenInfo_def logCall_def
      orElse_def truthy_def str_def chainInfoDown_def chainWith_def world123_def)

lemma bs_pullBackERC20_calls:
  assumes live: "checkERC20Status_call c tokenContract from = Some (balance, allowance)"
    and amt: "BigInt amount = Some a"
  shows "chainCalls (snd (bs_pullBackERC20 c w tokenContract from amount)) =
           chainCalls w @ CallCheckERC20Status tokenContract from #
             (if int allowance < a \<or> int balance < a then []
              else [CallPullBackERC20 tokenContract from amount])"
  using live
  by (cases "int allowance < a"; cases "int balance < a")
    (simp_all add: bs_pullBackERC20_def bs_checkERC20Status_def logCall_def
      bigIntLess_toString [OF amt])

text \<open>
  C7, as the code has it. The comparisons of \<open>pullBackERC20\<close> are comparisons of integers
  of any size. For an amount that \<open>BigInt\<close> reads as the integer \<open>a\<close>, the controller
  answers \<open>Insufficient token allowance\<close> exactly when the token-information read has
  succeeded and \<open>allowance < a\<close>, and \<open>Insufficient token balance\<close> exactly when that read
  has succeeded, \<open>allowance \<ge> a\<close> and \<open>balance < a\<close>; the service submits its transaction
  exactly when neither is below \<open>a\<close>.
\<close>

theorem pullBackERC20_exact_comparison:
  assumes fields: "truthy tokenContract" "truthy fromAddress" "truthy amount" "truthy operatorAddress"
    and live: "checkERC20Status_call c (str tokenContract) (str fromAddress) = Some (balance, allowance)"
    and amt: "BigInt (str amount) = Some a"
  shows "(fst (pullBackERC20 c w now tokenContract fromAddress amount operatorAddress) =
            Failure 400 ''Insufficient token allowance''
              [(''required'', str amount), (''current'', toString allowance)]
          \<longleftrightarrow> erc20Info c (str tokenContract) \<noteq> None \<and> int allowance < a)
       \<and> (fst (pullBackERC20 c w now tokenContract fromAddress amount operatorAddress) =
            Failure 400 ''Insufficient token balance''
              [(''required'', str amount), (''current'', toString balance)]
          \<longleftrightarrow> erc20Info c (str tokenContract) \<noteq> None \<and> \<not> int allowance < a \<and> int balance < a)
       \<and> chainCalls (snd (bs_pullBackERC20 c w (str tokenContract) (str fromAddress) (str amount))) =
           chainCalls w @ CallCheckERC20Status (str tokenContract) (str fromAddress) #
             (if int allowance < a \<or> int balance < a then []
              else [CallPullBackERC20 (str tokenContract) (str fromAddress) (str amount)])"
proof (intro conjI)
  show "fst (pullBackERC20 c w now tokenContract fromAddress amount operatorAddress) =
            Failure 400 ''Insufficient token allowance''
              [(''required'', str amount), (''current'', toString allowance)]
          \<longleftrightarrow> erc20Info c (str tokenContract) \<noteq> None \<and> int allowance < a"
    using fields live
    by (auto simp: pullBackERC20_def bs_getERC20TokenInfo_def bs_checkERC20Status_def logCall_def
        bigIntLess_toString [OF amt] fst_pullBackERC20_catch Let_def
        split: prod.splits sum.splits bool.splits option.splits)
  show "fst (pullBackERC20 c w now tokenContract fromAddress amount operatorAddress) =
            Failure 400 ''Insufficient token balance''
              [(''required'', str amount), (''current'', toString balance)]
          \<longleftrightarrow> erc20Info c (str tokenContract) \<noteq> None \<and> \<not> int allowance < a \<and> int balance < a"
    using fields live
    by (auto simp: pullBackERC20_def bs_getERC20TokenInfo_def bs_checkERC20Status_def logCall_def
        bigIntLess_toString [OF amt] fst_pullBackERC20_catch Let_def
        split: prod.splits sum.splits bool.splits option.splits)
  show "chainCalls (snd (bs_pullBackERC20 c w (str tokenContract) (str fromAddress) (str amount))) =
           chainCalls w @ CallCheckERC20Status (str tokenContract) (str fromAddress) #
             (if int allowance < a \<or> int balance < a then []
              else [CallPullBackERC20 (str tokenContract) (str fromAddress) (str amount)])"
    by (rule bs_pullBackERC20_calls [OF live amt])
qed

theorem pullBackERC20_exact_comparison_witness:
  "fst (pullBackERC20 (chainWith True (18446744073709551616, 18446744073709551615)) world123 5000
       (Some ''0xbdead'') (Some ''0xaaa'') (Some ''18446744073709551616'') (Some ''0xbbb'')) =
     Failure 400 ''Insufficient token allowance''
       [(''required'', ''18446744073709551616''), (''current'', ''18446744073709551615'')]
   \<and> fst (pullBackERC20 (chainWith True (18446744073709551615, 18446744073709551616)) world123 5000
       (Some ''0xbdead'') (Some ''0xaaa'') (Some ''18446744073709551616'') (Some ''0xbbb'')) =
     Failure 400 ''Insufficient token balance''
       [(''required'', ''18446744073709551616''), (''current'', ''18446744073709551615'')]"
proof -
  have amt: "BigInt (str (Some ''18446744073709551616'')) = Some 18446744073709551616"
    by (simp add: str_def BigInt_eval)
  have t: "toString 18446744073709551615 = ''18446744073709551615''"
    by (simp add: toString.simps digitChar_def)
  show ?thesis
    using pullBackERC20_exact_comparison [where c = "chainWith True (18446744073709551616, 18446744073709551615)"
        and w = world123 and tokenContract = "Some ''0xbdead''" and fromAddress = "Some ''0xaaa''"
        and amount = "Some ''18446744073709551616''" and operatorAddress = "Some ''0xbbb''"
        and now = 5000 and balance = 18446744073709551616 and allowance = 18446744073709551615
        and a = 18446744073709551616, OF _ _ _ _ _ amt]
      pullBackERC20_exact_comparison [where c = "chainWith True (18446744073709551615, 18446744073709551616)"
        and w = world123 and tokenContract = "Some ''0xbdead''" and fromAddress = "Some ''0xaaa''"
        and amount = "Some ''18446744073709551616''" and operatorAddress = "Some ''0xbbb''"
        and now = 5000 and balance = 18446744073709551615 and allowance = 18446744073709551616
        and a = 18446744073709551616, OF _ _ _ _ _ amt]
    by (simp add: truthy_def str_def chainWith_def t)
qed

text \<open>
  C7 as stated fails: at the amount 18446744073709551616 and the allowance
  18446744073709551615 the call does not report an insufficient allowance when the
  token-information read, which comes before the comparisons, throws.
\<close>

theorem pullBackERC20_comparison_not_reached:
  "checkERC20Status_call (chainInfoDown (18446744073709551616, 18446744073709551615))
       ''0xbdead'' ''0xaaa'' = Some (18446744073709551616, 18446744073709551615)
   \<and> fst (pullBackERC20 (chainInfoDown (18446744073709551616, 18446744073709551615)) world123 5000
       (Some ''0xbdead'') (Some ''0xaaa'') (Some ''18446744073709551616'') (Some ''0xbbb'')) =
     Failure 500 ''Failed to get token information'' []"
  by (simp add: pullBackERC20_def pullBackERC20_catch_def bs_getERC20TokenInfo_def logCall_def
      orElse_def truthy_def str_def chainInfoDown_def chainWith_def world123_def)

section \<open>The event monitor\<close>

lemma handleTransferEvent_id: "handleTransferEvent w from to tokenId = w"
  by (simp add: handleTransferEvent_def split: option.splits)

lemma NFT_findOne_update:
  assumes "\<And>n. nft_tokenId (upd n) = nft_tokenId n"
  shows "NFT_findOne (NFT_findOneAndUpdate rows t' upd) t =
           (if t = t' then map_option upd (NFT_findOne rows t) else NFT_findOne rows t)"
  using assms by (induction rows) (auto simp: NFT_findOne_def)

lemma statusOf_pulledBack:
  "statusOf (handleTokenPulledBackEvent w from operator t' txHash) t =
     (if t = t' then map_option (\<lambda>s. Pulled) (statusOf w t) else statusOf w t)"
  by (simp add: statusOf_def handleTokenPulledBackEvent_def NFT_findOne_update
      option.map_comp comp_def)

lemma statusOf_minted:
  "statusOf (handleTokenMintedEvent w to t' tokenURI txHash) t =
     (if t = t' then map_option (\<lambda>s. Minted) (statusOf w t) else statusOf w t)"
  by (simp add: statusOf_def handleTokenMintedEvent_def NFT_findOne_update
      option.map_comp comp_def)

lemma statusOf_approvalForAll:
  "statusOf (handleApprovalForAllEvent c w now owner operator approved txHash blockNumber) t =
     statusOf w t"
  by (simp add: statusOf_def handleApprovalForAllEvent_def logCall_def Let_def
      split: option.splits sum.splits)

lemma statusOf_deliver:
  "statusOf (deliver c now w e) t =
     (case e of
        TokenPulledBack from operator t' txHash blockNumber \<Rightarrow>
          if t = t' then map_option (\<lambda>s. Pulled) (statusOf w t) else statusOf w t
      | TokenMinted to t' tokenURI txHash blockNumber \<Rightarrow>
          if t = t' then map_option (\<lambda>s. Minted) (statusOf w t) else statusOf w t
      | _ \<Rightarrow> statusOf w t)"
  by (cases e)
    (simp_all add: handleTransferEvent_id statusOf_pulledBack statusOf_minted
      statusOf_approvalForAll)

lemma processEvents_status_range:
  "statusOf w t \<in> {Some Pulled, Some Minted} \<Longrightarrow>
   statusOf (processEvents c now w es) t \<in> {Some Pulled, Some Minted}"
proof (induction es arbitrary: w)
  case Nil
  then show ?case by simp
next
  case (Cons e es)
  have "statusOf (deliver c now w e) t \<in> {Some Pulled, Some Minted}"
    using Cons.prems by (auto simp: statusOf_deliver split: event.splits)
  then show ?case using Cons.IH by simp
qed

lemma processEvents_stays_pulled:
  "statusOf w t = Some Pulled \<Longrightarrow> \<not> list_ex (mintsToken t) es \<Longrightarrow>
   statusOf (processEvents c now w es) t = Some Pulled"
proof (induction es arbitrary: w)
  case Nil
  then show ?case by simp
next
  case (Cons e es)
  have "statusOf (deliver c now w e) t = Some Pulled"
    using Cons.prems by (auto simp: statusOf_deliver split: event.splits)
  then show ?case using Cons.IH Cons.prems by simp
qed

text \<open>
  C3, as the code has it. \<open>handleTokenMintedEvent\<close> writes \<open>minted\<close> without looking at
  the current status. For a record in status \<open>pulled\<close>: no sequence of events sets it to
  \<open>uploaded\<close>; it stays \<open>pulled\<close> under every sequence that holds no \<open>TokenMinted\<close>
  event for its token; and a \<open>TokenMinted\<close> event for its token sets it to \<open>minted\<close>.
\<close>

theorem pulled_status_under_events:
  assumes "statusOf w tokenId = Some Pulled"
  shows "statusOf (processEvents c now w es) tokenId \<noteq> Some Uploaded
       \<and> (\<not> list_ex (mintsToken tokenId) es \<longrightarrow>
            statusOf (processEvents c now w es) tokenId = Some Pulled)
       \<and> statusOf (deliver c now w (TokenMinted to tokenId tokenURI txHash blockNumber)) tokenId =
            Some Minted"
  using processEvents_status_range [of w tokenId c now es]
    processEvents_stays_pulled [of w tokenId es c now] assms
  by (auto simp: statusOf_minted)

theorem pulled_status_under_events_witness:
  "statusOf (processEvents (chainWith True (0, 0)) 5000 worldPulled
      [Transfer ''0x000'' ''0xAAA'' ''123'' ''0x05'' 9,
       ApprovalForAll ''0xAAA'' ''0xBBB'' False ''0x06'' 10,
       TokenPulledBack ''0xAAA'' ''0xBBB'' ''123'' ''0x07'' 11,
       TokenMinted ''0xAAA'' ''124'' ''ipfs://doc'' ''0x08'' 12]) ''123'' = Some Pulled"
  using pulled_status_under_events [where w = worldPulled and tokenId = "''123''"
      and c = "chainWith True (0, 0)" and now = 5000
      and es = "[Transfer ''0x000'' ''0xAAA'' ''123'' ''0x05'' 9,
       ApprovalForAll ''0xAAA'' ''0xBBB'' False ''0x06'' 10,
       TokenPulledBack ''0xAAA'' ''0xBBB'' ''123'' ''0x07'' 11,
       TokenMinted ''0xAAA'' ''124'' ''ipfs://doc'' ''0x08'' 12]"]
  by (simp add: statusOf_def worldPulled_def world123_def nft123_def NFT_findOne_def)

text \<open>
  C3 as stated fails: a \<open>TokenMinted\<close> event for token 123 turns its status from
  \<open>pulled\<close> back to \<open>minted\<close>.
\<close>

theorem pulled_overwritten_by_TokenMinted:
  "statusOf worldPulled ''123'' = Some Pulled
   \<and> statusOf (processEvents (chainWith True (0, 0)) 5000 worldPulled
        [TokenMinted ''0xAAA'' ''123'' ''ipfs://doc'' ''0x01'' 7]) ''123'' = Some Minted"
  by (simp add: statusOf_def worldPulled_def world123_def nft123_def NFT_findOne_def
      handleTokenMintedEvent_def)

text \<open>
  C4. The claim is that a Transfer event to the recipient of a minted record leaves the
  persisted status \<open>redeemed\<close>. The handler assigns the status to the document it read
  and never saves it: after the event to \<open>0xAAA\<close>, the recipient of token 123, the
  persisted status of the token is still \<open>minted\<close>.
\<close>

theorem transfer_to_recipient_not_persisted:
  "statusOf world123 ''123'' = Some Minted
   \<and> toLowerCase ''0xAAA'' = toLowerCase (nft_recipientAddress nft123)
   \<and> statusOf (deliver (chainWith True (0, 0)) 5000 world123
        (Transfer ''0x000'' ''0xAAA'' ''123'' ''0x05'' 9)) ''123'' = Some Minted"
  by (simp add: statusOf_def world123_def nft123_def NFT_findOne_def handleTransferEvent_def
      lower_0xAAA lower_0xaaa)

section \<open>The approval ledger\<close>

lemma ERC20Approval_findOne_snoc:
  "ERC20Approval_findOne (rows @ [a]) txHash tokenContract =
     (case ERC20Approval_findOne rows txHash tokenContract of
        Some x \<Rightarrow> Some x
      | None \<Rightarrow> if ea_txHash a = txHash \<and> ea_tokenContract a = tokenContract then Some a else None)"
  by (induction rows) (auto simp: ERC20Approval_findOne_def)

lemma ERC20Approval_create_Inr:
  "ERC20Approval_create rows doc = Inr rows' \<Longrightarrow> rows' = rows @ [doc]"
  by (auto simp: ERC20Approval_create_def split: if_splits)

text \<open>
  C5. When a call of \<open>recordERC20Approval\<close> has answered with a row, a second call with
  the same \<open>txHash\<close> and \<open>tokenContract\<close> answers with the same row and
  \<open>alreadyRecorded = true\<close>, and leaves the state as it was: no row is added and no
  receipt is looked up (the log of chain calls is unchanged), whatever the chain answers.
\<close>

theorem recordERC20Approval_idempotent:
  assumes first: "recordERC20Approval c w now walletAddress operatorAddress tokenContract txHash =
                    (Success (approval, alreadyRecorded), w1)"
    and again: "truthy walletAddress'" "truthy operatorAddress'"
  shows "recordERC20Approval c' w1 now' walletAddress' operatorAddress' tokenContract txHash =
           (Success (approval, True), w1)"
proof -
  let ?key = "toLowerCase (str tokenContract)"
  from first have fields: "truthy tokenContract" "truthy txHash"
    by (auto simp: recordERC20Approval_def split: if_splits)
  from first obtain tokenInfo where ti: "TOKEN_INFO_get ?key = Some tokenInfo"
    by (auto simp: recordERC20Approval_def Let_def split: if_splits option.splits)
  have found: "ERC20Approval_findOne (erc20Approvals w1) (str txHash) ?key = Some approval"
  proof (cases "ERC20Approval_findOne (erc20Approvals w) (str txHash) ?key")
    case (Some existing)
    with first ti show ?thesis
      by (auto simp: recordERC20Approval_def Let_def split: if_splits)
  next
    case None
    with first ti show ?thesis
      by (auto simp: recordERC20Approval_def Let_def bs_getTransactionReceipt_def logCall_def
          ERC20Approval_findOne_snoc
          split: if_splits option.splits sum.splits dest!: ERC20Approval_create_Inr)
  qed
  show ?thesis
    using fields again ti found by (simp add: recordERC20Approval_def)
qed

theorem recordERC20Approval_idempotent_witness:
  "recordERC20Approval (chainWith False (0, 0)) world123 5000 (Some ''0xAAA'') (Some ''0xBBB'')
       (Some ''0xbDeaD2A70Fe794D2f97b37EFDE497e68974a296d'') (Some ''0x111'') =
     (Success (usdtApproval, False), worldRecorded)
   \<and> recordERC20Approval (chainWith False (0, 0)) worldRecorded 6000 (Some ''0xAAA'') (Some ''0xBBB'')
       (Some ''0xbDeaD2A70Fe794D2f97b37EFDE497e68974a296d'') (Some ''0x111'') =
     (Success (usdtApproval, True), worldRecorded)"
proof -
  have first: "recordERC20Approval (chainWith False (0, 0)) world123 5000 (Some ''0xAAA'')
       (Some ''0xBBB'') (Some ''0xbDeaD2A70Fe794D2f97b37EFDE497e68974a296d'') (Some ''0x111'') =
     (Success (usdtApproval, False), worldRecorded)"
    by (simp add: recordERC20Approval_def truthy_def str_def lower_USDT_literal
        TOKEN_INFO_get_USDT world123_def ERC20Approval_findOne_def bs_getTransactionReceipt_def
        logCall_def chainWith_def ERC20Approval_create_def lower_0xAAA lower_0xBBB
        createAuditLog_def usdtApproval_def worldRecorded_def Let_def)
  show ?thesis
    using first recordERC20Approval_idempotent [OF first, where walletAddress' = "Some ''0xAAA''"
        and operatorAddress' = "Some ''0xBBB''" and c' = "chainWith False (0, 0)" and now' = 6000]
    by (simp add: truthy_def)
qed

text \<open>
  C6. The claim is that a replay of \<open>recordApproval\<close> with a recorded \<open>txHash\<close> returns
  the existing row without an error. What the code does on a replay: it fetches the
  receipt, reads the approval, and the insert is rejected by the unique index on
  \<open>txHash\<close>; the rejection reaches the \<open>catch\<close> block and the caller receives the 500
  with the duplicate-key message. The ledger is unchanged.
\<close>

theorem recordApproval_replay_rejected:
  assumes fields: "truthy walletAddress" "truthy operatorAddress" "truthy txHash"
    and replay: "str txHash \<in> set (map ap_txHash (approvals w))"
    and receipt: "getTransactionReceipt_call c (str txHash) = Some (Some blockNumber)"
    and live: "isApprovedForAll c (str walletAddress) (str operatorAddress) = Some isApproved"
  shows "recordApproval c w now walletAddress operatorAddress txHash =
           (Failure 500 DuplicateKeyError [],
            w\<lparr>chainCalls := chainCalls w @
               [CallGetTransactionReceipt (str txHash),
                CallIsApprovedForAll (str walletAddress) (str operatorAddress)]\<rparr>)"
proof -
  from fields have ne: "toLowerCase (str walletAddress) \<noteq> []"
    "toLowerCase (str operatorAddress) \<noteq> []" "str txHash \<noteq> []"
    by (auto simp: truthy_def str_def toLowerCase_nonempty split: option.splits)
  show ?thesis
    using fields replay receipt live ne
    by (simp add: recordApproval_def bs_getTransactionReceipt_def bs_checkApproval_def
        logCall_def Approval_create_def Let_def orElse_def DuplicateKeyError_def)
qed

theorem recordApproval_replay_rejected_witness:
  "ap_txHash ledgerApproved = ''0x111'' \<and> approvals world123 = [ledgerApproved]
   \<and> recordApproval (chainWith True (0, 0)) world123 5000
       (Some ''0xAAA'') (Some ''0xBBB'') (Some ''0x111'') =
     (Failure 500 ''E11000 duplicate key error'' [],
      world123\<lparr>chainCalls :=
        [CallGetTransactionReceipt ''0x111'', CallIsApprovedForAll ''0xAAA'' ''0xBBB'']\<rparr>)"
  using recordApproval_replay_rejected [where walletAddress = "Some ''0xAAA''"
      and operatorAddress = "Some ''0xBBB''" and txHash = "Some ''0x111''" and w = world123
      and c = "chainWith True (0, 0)" and blockNumber = 7 and isApproved = True and now = 5000]
  by (simp add: truthy_def str_def chainWith_def world123_def ledgerApproved_def
      DuplicateKeyError_def)

lemma TOKEN_INFO_get_own:
  "TOKEN_INFO_get key = Some (OwnEntry symbol name) \<Longrightarrow> symbol = ''USDT'' \<or> symbol = ''USDC''"
  by (auto simp: TOKEN_INFO_get_def TOKEN_INFO_def split: if_splits)

lemma ERC20Approval_findOne_None:
  "ERC20Approval_findOne rows txHash tokenContract = None \<Longrightarrow>
   (txHash, tokenContract) \<notin> set (map (\<lambda>r. (ea_txHash r, ea_tokenContract r)) rows)"
  by (auto simp: ERC20Approval_findOne_def find_None_iff)

lemma bs_getTransactionReceipt_chain:
  "bs_getTransactionReceipt
     (c\<lparr>checkERC20Status_call := liveStatus, isApprovedForAll := liveApproval\<rparr>) w txHash =
   bs_getTransactionReceipt c w txHash"
  by (simp add: bs_getTransactionReceipt_def)

text \<open>
  C10. For a supported token, no row of the pair (txHash, tokenContract) and a receipt,
  \<open>recordERC20Approval\<close> stores the row \<open>approval\<close> with \<open>isApproved = true\<close>. The
  receipt lookup is its only chain call, and the answer does not depend on what the chain
  reports as allowance or approval (\<open>liveStatus\<close>, \<open>liveApproval\<close>).
\<close>

theorem recordERC20Approval_always_approved:
  assumes fields: "truthy walletAddress" "truthy operatorAddress" "truthy tokenContract" "truthy txHash"
    and supported: "TOKEN_INFO_get (toLowerCase (str tokenContract)) = Some (OwnEntry symbol name)"
    and fresh: "ERC20Approval_findOne (erc20Approvals w) (str txHash)
                  (toLowerCase (str tokenContract)) = None"
    and receipt: "getTransactionReceipt_call c (str txHash) = Some (Some blockNumber)"
    and approval: "approval =
            \<lparr>ea_walletAddress = toLowerCase (str walletAddress),
             ea_operatorAddress = toLowerCase (str operatorAddress),
             ea_tokenContract = toLowerCase (str tokenContract), ea_tokenSymbol = symbol,
             ea_txHash = str txHash, ea_blockNumber = blockNumber, ea_isApproved = True,
             ea_timestamp = now, ea_recordedAt = now\<rparr>"
  shows "fst (recordERC20Approval c w now walletAddress operatorAddress tokenContract txHash) =
           Success (approval, False)
       \<and> ea_isApproved approval
       \<and> erc20Approvals (snd (recordERC20Approval c w now walletAddress operatorAddress
            tokenContract txHash)) = erc20Approvals w @ [approval]
       \<and> chainCalls (snd (recordERC20Approval c w now walletAddress operatorAddress
            tokenContract txHash)) = chainCalls w @ [CallGetTransactionReceipt (str txHash)]
       \<and> recordERC20Approval
            (c\<lparr>checkERC20Status_call := liveStatus, isApprovedForAll := liveApproval\<rparr>)
            w now walletAddress operatorAddress tokenContract txHash =
          recordERC20Approval c w now walletAddress operatorAddress tokenContract txHash"
proof -
  from supported have sym: "symbol \<noteq> []" by (auto dest: TOKEN_INFO_get_own)
  from fields have ne: "toLowerCase (str walletAddress) \<noteq> []" "toLowerCase (str operatorAddress) \<noteq> []"
    "toLowerCase (str tokenContract) \<noteq> []" "str txHash \<noteq> []"
    by (auto simp: truthy_def str_def toLowerCase_nonempty split: option.splits)
  have create: "ERC20Approval_create (erc20Approvals w) approval = Inr (erc20Approvals w @ [approval])"
    using sym ne ERC20Approval_findOne_None [OF fresh]
    by (simp add: ERC20Approval_create_def approval)
  have indep: "recordERC20Approval
            (c\<lparr>checkERC20Status_call := liveStatus, isApprovedForAll := liveApproval\<rparr>)
            w now walletAddress operatorAddress tokenContract txHash =
          recordERC20Approval c w now walletAddress operatorAddress tokenContract txHash"
    by (simp only: recordERC20Approval_def bs_getTransactionReceipt_chain)
  have approved: "ea_isApproved approval" by (simp add: approval)
  show ?thesis
    using fields supported fresh receipt create indep approved
    by (simp add: recordERC20Approval_def bs_getTransactionReceipt_def logCall_def Let_def
        approval [symmetric])
qed

theorem recordERC20Approval_always_approved_witness:
  "fst (recordERC20Approval (chainWith False (0, 0)) world123 5000 (Some ''0xAAA'') (Some ''0xBBB'')
       (Some ''0xbDeaD2A70Fe794D2f97b37EFDE497e68974a296d'') (Some ''0x111'')) =
     Success (usdtApproval, False)
   \<and> ea_isApproved usdtApproval
   \<and> checkERC20Status_call (chainWith False (0, 0)) USDT_ADDRESS ''0xAAA'' = Some (0, 0)"
  using recordERC20Approval_always_approved [where c = "chainWith False (0, 0)" and w = world123
      and now = 5000 and walletAddress = "Some ''0xAAA''" and operatorAddress = "Some ''0xBBB''"
      and tokenContract = "Some ''0xbDeaD2A70Fe794D2f97b37EFDE497e68974a296d''"
      and txHash = "Some ''0x111''" and symbol = "''USDT''" and name = "''Tether USD''"
      and blockNumber = 7 and approval = usdtApproval
      and liveStatus = "\<lambda>tokenContract holder. Some (5, 5)"
      and liveApproval = "\<lambda>owner operator. Some True"]
  by (simp add: truthy_def str_def lower_USDT_literal TOKEN_INFO_get_USDT world123_def
      ERC20Approval_findOne_def chainWith_def usdtApproval_def lower_0xAAA lower_0xBBB)

section \<open>The connected-recipients view\<close>




text \<open>
  C9. The candidates, \<open>hasAnyApproval\<close>, the first-approval timestamp and the order are
  defined above in the words of the specification, over the two collections themselves.
  With the stored ERC-20 approvals all as \<open>recordERC20Approval\<close>, their only writer,
  creates them, the list returned by \<open>getConnectedRecipients\<close> holds one summary for each
  candidate recipient of the operator whose \<open>hasAnyApproval\<close> is true, and for no other;
  every summary carries the flag and the earliest stored approval as its timestamp; the
  list is sorted by that timestamp, descending, with the recipients without one last.
\<close>

theorem getConnectedRecipients_contents_and_order:
  assumes op: "truthy operator" and ca: "truthy contractAddress"
    and inv: "recordedByController (erc20Approvals w)"
  shows "\<exists>recipients.
      getConnectedRecipients c w now contractAddress operator =
        Success \<lparr>cr_recipients = recipients, cr_count = length recipients,
          cr_totalRecipients = length (uniqueRecipients w (toLowerCase (str operator))),
          cr_lastUpdated = now\<rparr>
    \<and> distinct (map rs_walletAddress recipients)
    \<and> set (map rs_walletAddress recipients) =
        {r. r \<in> candidateRecipients w (toLowerCase (str operator))
            \<and> hasAnyApprovalSpec c w (toLowerCase (str operator)) (str contractAddress) r}
    \<and> list_all (\<lambda>s. rs_hasAnyApproval s
          \<and> rs_firstApprovalAt s =
              firstApprovalSpec w (toLowerCase (str operator)) (rs_walletAddress s)) recipients
    \<and> sorted_wrt firstApprovalBefore recipients"
proof -
  let ?op = "toLowerCase (str operator)"
  let ?f = "\<lambda>r. projr (recipientSummary c w ?op (str contractAddress)
              (storedApprovalsOf w ?op) (nftsOf w ?op) r)"
  let ?rs = "uniqueRecipients w ?op"
  let ?out = "sortWith compareFirstApproval (filter rs_hasAnyApproval (map ?f ?rs))"
  have props: "rs_walletAddress (?f r) = r
      \<and> rs_hasAnyApproval (?f r) = hasAnyApprovalSpec c w ?op (str contractAddress) r
      \<and> rs_firstApprovalAt (?f r) = firstApprovalSpec w ?op r" for r
  proof -
    obtain s where s: "recipientSummary c w ?op (str contractAddress)
          (storedApprovalsOf w ?op) (nftsOf w ?op) r = Inr s"
      and wa: "rs_walletAddress s = r"
      and fa: "rs_firstApprovalAt s =
         (case map ea_timestamp (storedApprovalsFor w ?op r) of
            [] \<Rightarrow> None | t # ts \<Rightarrow> Some (minOf t ts))"
      and ha: "rs_hasAnyApproval s =
         (find (\<lambda>a. toLowerCase (ea_tokenContract a) = toLowerCase USDT_ADDRESS)
            (storedApprovalsFor w ?op r) \<noteq> None
          \<or> find (\<lambda>a. toLowerCase (ea_tokenContract a) = toLowerCase USDC_ADDRESS)
            (storedApprovalsFor w ?op r) \<noteq> None
          \<or> 0 < liveAllowance c USDT_ADDRESS r \<or> 0 < liveAllowance c USDC_ADDRESS r
          \<or> liveNFTApproval c w r (str contractAddress))"
      using recipientSummary_Inr [of c w ?op "str contractAddress" "storedApprovalsOf w ?op"
          "nftsOf w ?op" r]
      unfolding storedApprovalsFor_def by blast
    note rows = storedApprovalsFor_rows [OF inv, of ?op r]
    have "rs_firstApprovalAt s = firstApprovalSpec w ?op r"
    proof (cases "map ea_timestamp (approvalRowsFor w ?op r)")
      case Nil
      then show ?thesis by (simp add: fa rows firstApprovalSpec_def)
    next
      case (Cons t ts)
      then show ?thesis
        unfolding fa rows firstApprovalSpec_def Let_def minOf_Min by (simp del: set_map)
    qed
    moreover have "rs_hasAnyApproval s = hasAnyApprovalSpec c w ?op (str contractAddress) r"
      using stored_token_found [OF inv, of ?op r]
      by (auto simp: ha hasAnyApprovalSpec_def liveNFTApproval_eq rows [symmetric])
    ultimately show ?thesis using s wa by simp
  qed
  have names: "map rs_walletAddress (filter rs_hasAnyApproval (map ?f ?rs)) =
      filter (hasAnyApprovalSpec c w ?op (str contractAddress)) ?rs"
    by (simp add: filter_map comp_def props)
  have res: "getConnectedRecipients c w now contractAddress operator =
        Success \<lparr>cr_recipients = ?out, cr_count = length ?out,
          cr_totalRecipients = length ?rs, cr_lastUpdated = now\<rparr>"
    by (simp add: getConnectedRecipients_Success [OF op ca] length_sortWith)
  have d: "distinct (map rs_walletAddress ?out)"
    by (simp add: distinct_map_sortWith names distinct_uniqueRecipients)
  have st: "set (map rs_walletAddress ?out) =
        {r. r \<in> candidateRecipients w ?op \<and> hasAnyApprovalSpec c w ?op (str contractAddress) r}"
  proof -
    have "set (map rs_walletAddress ?out) =
        set (map rs_walletAddress (filter rs_hasAnyApproval (map ?f ?rs)))"
      by (simp only: set_map set_sortWith)
    then show ?thesis by (auto simp only: names set_filter set_uniqueRecipients [OF inv])
  qed
  have la: "list_all (\<lambda>s. rs_hasAnyApproval s
          \<and> rs_firstApprovalAt s = firstApprovalSpec w ?op (rs_walletAddress s)) ?out"
    by (auto simp: list_all_iff set_sortWith props)
  show ?thesis
    using res d st la sorted_by_firstApproval by blast
qed

theorem getConnectedRecipients_contents_and_order_witness:
  "map (\<lambda>s. (rs_walletAddress s, rs_firstApprovalAt s))
     (responseRecipients (getConnectedRecipients chainTwoOperators
        worldTwoOperators 7000 (Some ''0xddd'') (Some ''0xBBB''))) =
     [(''0xeee'', Some 6000), (''0xaaa'', Some 5000), (''0xccc'', None)]
   \<and> sorted_wrt firstApprovalBefore
       (responseRecipients (getConnectedRecipients chainTwoOperators
          worldTwoOperators 7000 (Some ''0xddd'') (Some ''0xBBB'')))"
proof -
  let ?R = "getConnectedRecipients chainTwoOperators worldTwoOperators 7000
              (Some ''0xddd'') (Some ''0xBBB'')"
  have ev: "map (\<lambda>s. (rs_walletAddress s, rs_firstApprovalAt s)) (responseRecipients ?R) =
     [(''0xeee'', Some 6000), (''0xaaa'', Some 5000), (''0xccc'', None)]"
    by (simp add: chainTwoOperators_def chainOneAllowance_def worldTwoOperators_def nft777_def
        usdtApprovalElsewhere_def lower_0x777 lower_0x888 dashboard_eval)
  have op: "truthy (Some ''0xBBB'')" and ca: "truthy (Some ''0xddd'')"
    by (simp_all add: truthy_def)
  from getConnectedRecipients_contents_and_order [OF op ca recordedByController_worldTwoOperators,
      of chainTwoOperators 7000]
  obtain recipients where r: "?R = Success \<lparr>cr_recipients = recipients,
        cr_count = length recipients,
        cr_totalRecipients = length (uniqueRecipients worldTwoOperators (toLowerCase (str (Some ''0xBBB'')))),
        cr_lastUpdated = 7000\<rparr>"
    and srt: "sorted_wrt firstApprovalBefore recipients"
    by blast
  from r have "responseRecipients ?R = recipients" by (simp add: responseRecipients_def)
  with srt ev show ?thesis by simp
qed
end
